theory Spec2Isabelle
  imports Main "HOL-Library.Sublist" "HOL-Library.AList" "HOL-Library.Multiset"
begin

section \<open>JavaScript strings\<close>

text \<open>
  A JavaScript string is a sequence of UTF-16 code units; it is modelled as the list of
  its code units, so that \<open>length\<close>, \<open>substring\<close> and \<open>split\<close> count what the
  source counts. \<open>asc\<close> embeds an ASCII literal; code units outside ASCII (accents,
  emoji as surrogate pairs) are written as numbers.
\<close>

type_synonym jsstring = "nat list"

definition asc :: "string \<Rightarrow> jsstring" where
  "asc s = map of_char s"

text \<open>\<open>s.split(',')\<close>: the pieces between commas; the empty string gives one empty piece.\<close>

fun splitComma :: "jsstring \<Rightarrow> jsstring list" where
  "splitComma [] = [[]]"
| "splitComma (c # cs) =
     (if c = 44 then [] # splitComma cs
      else (case splitComma cs of [] \<Rightarrow> [[c]] | p # ps \<Rightarrow> (c # p) # ps))"

text \<open>
  Truthiness of an optional string (\<open>undefined\<close>/\<open>null\<close> is \<open>None\<close>): the value
  counts as true when it is present and not the empty string.
\<close>

fun truthyStr :: "jsstring option \<Rightarrow> bool" where
  "truthyStr None = False"
| "truthyStr (Some s) = (s \<noteq> [])"

text \<open>Template interpolation of a non-negative integer and of an integer.\<close>

fun showNat :: "nat \<Rightarrow> jsstring" where
  "showNat n = (if n < 10 then [48 + n] else showNat (n div 10) @ [48 + n mod 10])"

declare showNat.simps [simp del]

definition showInt :: "int \<Rightarrow> jsstring" where
  "showInt i = (if i < 0 then 45 # showNat (nat (- i)) else showNat (nat i))"

datatype jsError = TypeError | SyntaxError | IOError

section \<open>Findings and the report model (src/reporter.js)\<close>

text \<open>
  A finding as the probes build it. \<open>f_value\<close> holds what \<open>test.value.toString()\<close>
  yields (probes give a string or a number); \<open>f_severity\<close> and \<open>f_recommendation\<close>
  are \<open>None\<close> when the property is \<open>undefined\<close> or \<open>null\<close>. The fields of a record
  \<open>r\<close> carry a short prefix, since field names are global constants.
\<close>

record finding =
  f_name :: jsstring
  f_status :: jsstring
  f_value :: jsstring
  f_details :: jsstring
  f_severity :: "jsstring option"
  f_recommendation :: "jsstring option"

record categoryResults =
  cr_name :: jsstring
  cr_tests :: "finding list"

record reporter =
  r_results :: "categoryResults list"
  r_url :: jsstring
  r_startTime :: "int option"
  r_endTime :: "int option"

definition newReporter :: reporter where
  "newReporter = \<lparr>r_results = [], r_url = [], r_startTime = None, r_endTime = None\<rparr>"

definition setUrl :: "jsstring \<Rightarrow> reporter \<Rightarrow> reporter" where
  "setUrl u r = r\<lparr>r_url := u\<rparr>"

definition startTimer :: "int \<Rightarrow> reporter \<Rightarrow> reporter" where
  "startTimer t r = r\<lparr>r_startTime := Some t\<rparr>"

definition endTimer :: "int \<Rightarrow> reporter \<Rightarrow> reporter" where
  "endTimer t r = r\<lparr>r_endTime := Some t\<rparr>"

definition addResults :: "categoryResults \<Rightarrow> reporter \<Rightarrow> reporter" where
  "addResults categoryResults r = r\<lparr>r_results := r_results r @ [categoryResults]\<rparr>"

section \<open>The category registry and the scan (src/index.js)\<close>

datatype probeId =
  TestHttpResponse | TestRedirects | TestSSL
  | TestSecurityHeaders | TestCookieSecurity | TestCORS
  | TestWithBrowser | TestPerformance | TestResponsive | TakeScreenshots

record category =
  c_name :: jsstring
  c_description :: jsstring
  c_tests :: "probeId list"

text \<open>
  \<open>TEST_CATEGORIES\<close> is an object literal; the association list keeps the insertion
  order of its keys, which is the order \<open>Object.keys\<close> returns.
\<close>

definition TEST_CATEGORIES :: "(jsstring \<times> category) list" where
  "TEST_CATEGORIES =
    [(asc ''http'',
        \<lparr>c_name = [0xD83D, 0xDCE1] @ asc '' HTTP/Response'',
         c_description = asc ''C'' @ [0xF3] @ asc ''digos de estado, tiempos de respuesta, redirecciones'',
         c_tests = [TestHttpResponse, TestRedirects]\<rparr>),
     (asc ''ssl'',
        \<lparr>c_name = [0xD83D, 0xDD12] @ asc '' SSL/TLS'',
         c_description = asc ''Certificados, protocolos, cifrado'',
         c_tests = [TestSSL]\<rparr>),
     (asc ''security'',
        \<lparr>c_name = [0xD83D, 0xDEE1, 0xFE0F] @ asc '' Headers de Seguridad'',
         c_description = asc ''CSP, HSTS, X-Frame-Options, Cookies'',
         c_tests = [TestSecurityHeaders, TestCookieSecurity, TestCORS]\<rparr>),
     (asc ''browser'',
        \<lparr>c_name = [0xD83C, 0xDF10] @ asc '' An'' @ [0xE1] @ asc ''lisis de Navegador'',
         c_description = asc ''JS errors, recursos, contenido mixto'',
         c_tests = [TestWithBrowser]\<rparr>),
     (asc ''performance'',
        \<lparr>c_name = [0x26A1] @ asc '' Rendimiento'',
         c_description = asc ''TTFB, tiempos de carga, memoria'',
         c_tests = [TestPerformance]\<rparr>),
     (asc ''responsive'',
        \<lparr>c_name = [0xD83D, 0xDCF1] @ asc '' Responsive'',
         c_description = asc ''Mobile, tablet, desktop - dise'' @ [0xF1] @ asc ''o adaptativo'',
         c_tests = [TestResponsive, TakeScreenshots]\<rparr>)]"

definition Object_keys :: "(jsstring \<times> 'a) list \<Rightarrow> jsstring list" where
  "Object_keys obj = map fst obj"

text \<open>
  A property read \<open>obj[c]\<close> on an object literal finds the object's own property, or
  else a member inherited from \<open>Object.prototype\<close> (a function or an object, hence
  truthy), or else \<open>undefined\<close>.
\<close>

definition Object_prototype_keys :: "jsstring list" where
  "Object_prototype_keys =
    [asc ''constructor'', asc ''__defineGetter__'', asc ''__defineSetter__'',
     asc ''hasOwnProperty'', asc ''__lookupGetter__'', asc ''__lookupSetter__'',
     asc ''isPrototypeOf'', asc ''propertyIsEnumerable'', asc ''toString'',
     asc ''valueOf'', asc ''__proto__'', asc ''toLocaleString'']"

datatype 'a property = Own 'a | Inherited | Undefined

definition getProp :: "(jsstring \<times> 'a) list \<Rightarrow> jsstring \<Rightarrow> 'a property" where
  "getProp obj c =
     (case map_of obj c of
        Some v \<Rightarrow> Own v
      | None \<Rightarrow> if c \<in> set Object_prototype_keys then Inherited else Undefined)"

fun truthyProp :: "'a property \<Rightarrow> bool" where
  "truthyProp (Own v) = True"
| "truthyProp Inherited = True"
| "truthyProp Undefined = False"

text \<open>The command-line options \<open>automaticMode\<close> reads to select categories and verbosity.\<close>

record options =
  o_only :: "jsstring option"
  o_skip :: "jsstring option"
  o_quiet :: bool

text \<open>The category selection at the head of \<open>automaticMode\<close>.\<close>

definition automaticMode_categories :: "options \<Rightarrow> jsstring list" where
  "automaticMode_categories opts =
     (let categories = Object_keys TEST_CATEGORIES;
          categories = (if truthyStr (o_only opts)
                        then filter (\<lambda>c. truthyProp (getProp TEST_CATEGORIES c))
                               (splitComma (the (o_only opts)))
                        else categories);
          categories = (if truthyStr (o_skip opts)
                        then (let skip = splitComma (the (o_skip opts))
                              in filter (\<lambda>c. c \<notin> set skip) categories)
                        else categories)
      in categories)"

text \<open>
  A probe is an asynchronous function of the repository's check modules; what a call
  yields depends on the network. The scan is therefore run against a world that tells,
  for the \<open>n\<close>-th probe call of the scan, whether the probe returned its result object
  or threw. What the check modules and their libraries throw is an \<open>Error\<close> object, of
  which the scan reads the message.
\<close>

datatype probeOutcome = Returns categoryResults | Throws jsstring

record scanWorld =
  sw_probe :: "nat \<Rightarrow> probeId \<Rightarrow> jsstring \<Rightarrow> probeOutcome"
  sw_startTime :: int
  sw_endTime :: int

text \<open>
  The logger (class \<open>Logger\<close>) writes to the console; the model records the calls that
  print. \<open>explain\<close> prints only when the logger is verbose. The terminal spinner is not
  recorded.
\<close>

datatype logEvent =
  LogHeader jsstring | LogStep nat nat jsstring | LogExplain jsstring | LogError jsstring

definition explain :: "bool \<Rightarrow> jsstring \<Rightarrow> logEvent list \<Rightarrow> logEvent list" where
  "explain verbose message lg = (if verbose then lg @ [LogExplain message] else lg)"

record scan =
  s_calls :: nat
  s_log :: "logEvent list"
  s_reporter :: reporter

text \<open>The inner loop of \<open>runTests\<close>: each probe call sits in its own try/catch.\<close>

fun runProbes :: "scanWorld \<Rightarrow> jsstring \<Rightarrow> probeId list \<Rightarrow> scan \<Rightarrow> scan" where
  "runProbes w url [] s = s"
| "runProbes w url (testFn # rest) s =
     (case sw_probe w (s_calls s) testFn url of
        Returns results \<Rightarrow>
          runProbes w url rest
            (s\<lparr>s_calls := Suc (s_calls s), s_reporter := addResults results (s_reporter s)\<rparr>)
      | Throws message \<Rightarrow>
          runProbes w url rest
            (s\<lparr>s_calls := Suc (s_calls s),
               s_log := s_log s @ [LogError (asc ''Error en test: '' @ message)]\<rparr>))"

text \<open>
  The outer loop. A key that is not an own key of the registry makes \<open>category.name\<close>
  or the iteration over \<open>category.tests\<close> raise a TypeError outside any try block.
\<close>

fun runCategories ::
  "scanWorld \<Rightarrow> bool \<Rightarrow> jsstring \<Rightarrow> nat \<Rightarrow> nat \<Rightarrow> jsstring list \<Rightarrow> scan \<Rightarrow> jsError + scan" where
  "runCategories w verbose url totalTests currentTest [] s = Inr s"
| "runCategories w verbose url totalTests currentTest (categoryKey # rest) s =
     (case getProp TEST_CATEGORIES categoryKey of
        Undefined \<Rightarrow> Inl TypeError
      | Inherited \<Rightarrow> Inl TypeError
      | Own category \<Rightarrow>
          (let currentTest = currentTest + 1;
               lg = s_log s @ [LogStep currentTest totalTests (c_name category)];
               lg = explain verbose (asc ''   '' @ c_description category) lg
           in runCategories w verbose url totalTests currentTest rest
                (runProbes w url (c_tests category) (s\<lparr>s_log := lg\<rparr>))))"

definition runTests ::
  "scanWorld \<Rightarrow> jsstring \<Rightarrow> jsstring list \<Rightarrow> bool \<Rightarrow> jsError + logEvent list \<times> reporter" where
  "runTests w url categories verbose =
     (let reporter = startTimer (sw_startTime w) (setUrl url newReporter);
          lg = [LogHeader (asc ''Analizando: '' @ url)]
      in case runCategories w verbose url (length categories) 0 categories
                \<lparr>s_calls = 0, s_log = lg, s_reporter = reporter\<rparr> of
           Inl e \<Rightarrow> Inl e
         | Inr s \<Rightarrow> Inr (s_log s, endTimer (sw_endTime w) (s_reporter s)))"

text \<open>The scan of \<open>automaticMode\<close>: the selected categories, verbose unless \<open>--quiet\<close>.\<close>

definition automaticMode ::
  "scanWorld \<Rightarrow> jsstring \<Rightarrow> options \<Rightarrow> jsError + logEvent list \<times> reporter" where
  "automaticMode w url opts =
     runTests w url (automaticMode_categories opts) (\<not> o_quiet opts)"

subsection \<open>What a scan is expected to collect\<close>

text \<open>
  The probe calls of a scan in category-then-probe order, their outcomes in the world, and
  the results and messages among them: the list the report is compared with.
\<close>

definition probeCalls :: "jsstring list \<Rightarrow> probeId list" where
  "probeCalls categories =
     concat (map (\<lambda>k. case getProp TEST_CATEGORIES k of Own c \<Rightarrow> c_tests c | _ \<Rightarrow> []) categories)"

definition probeOutcomesFrom :: "scanWorld \<Rightarrow> jsstring \<Rightarrow> nat \<Rightarrow> probeId list \<Rightarrow> probeOutcome list" where
  "probeOutcomesFrom w url n ps = map (\<lambda>(i, p). sw_probe w i p url) (enumerate n ps)"

fun returned :: "probeOutcome list \<Rightarrow> categoryResults list" where
  "returned [] = []"
| "returned (Returns r # os) = r # returned os"
| "returned (Throws m # os) = returned os"

fun thrown :: "probeOutcome list \<Rightarrow> jsstring list" where
  "thrown [] = []"
| "thrown (Returns r # os) = thrown os"
| "thrown (Throws m # os) = m # thrown os"

fun errorLines :: "logEvent list \<Rightarrow> jsstring list" where
  "errorLines [] = []"
| "errorLines (LogError m # lg) = m # errorLines lg"
| "errorLines (e # lg) = errorLines lg"

section \<open>Summary and markdown report (src/reporter.js)\<close>

record summary =
  sm_critical :: nat
  sm_high :: nat
  sm_medium :: nat
  sm_low :: nat
  sm_passed :: nat

text \<open>The body of the inner \<open>forEach\<close> of \<open>getSummary\<close>, for one test.\<close>

definition tally :: "finding \<Rightarrow> summary \<Rightarrow> summary" where
  "tally test sm =
     (let sm = (if f_status test = asc ''pass'' then sm\<lparr>sm_passed := sm_passed sm + 1\<rparr> else sm)
      in if f_severity test = Some (asc ''critical'') then sm\<lparr>sm_critical := sm_critical sm + 1\<rparr>
         else if f_severity test = Some (asc ''high'') then sm\<lparr>sm_high := sm_high sm + 1\<rparr>
         else if f_severity test = Some (asc ''medium'') then sm\<lparr>sm_medium := sm_medium sm + 1\<rparr>
         else if f_severity test = Some (asc ''low'') then sm\<lparr>sm_low := sm_low sm + 1\<rparr>
         else sm)"

definition getSummary :: "reporter \<Rightarrow> summary" where
  "getSummary r =
     fold (\<lambda>category sm. fold tally (cr_tests category) sm) (r_results r)
       \<lparr>sm_critical = 0, sm_high = 0, sm_medium = 0, sm_low = 0, sm_passed = 0\<rparr>"

text \<open>
  What rendering reads besides the report: the text \<open>new Date().toLocaleString('es-ES')\<close>
  gives at the moment of the call, the text \<open>(ms / 1000).toFixed(1)\<close> gives for a
  difference of \<open>ms\<close> milliseconds (floating-point formatting, taken as given), and the
  text an inherited member of \<open>Object.prototype\<close> prints as.
\<close>

record renderEnv =
  re_now :: jsstring
  re_toFixed1 :: "int \<Rightarrow> jsstring"
  re_inherited :: "jsstring \<Rightarrow> jsstring"

definition severityEmojis :: "(jsstring \<times> jsstring) list" where
  "severityEmojis =
     [(asc ''critical'', [0xD83D, 0xDD34]), (asc ''high'', [0xD83D, 0xDFE0]),
      (asc ''medium'', [0xD83D, 0xDFE1]), (asc ''low'', [0xD83D, 0xDD35]),
      (asc ''info'', [0x26AA])]"

definition statusEmojis :: "(jsstring \<times> jsstring) list" where
  "statusEmojis =
     [(asc ''pass'', [0x2705]), (asc ''fail'', [0x274C]),
      (asc ''warning'', [0x26A0, 0xFE0F]), (asc ''info'', [0x2139, 0xFE0F])]"

text \<open>\<open>emojis[key] || fallback\<close>; an absent key reads as \<open>undefined\<close>.\<close>

definition emojiOr ::
  "renderEnv \<Rightarrow> (jsstring \<times> jsstring) list \<Rightarrow> jsstring option \<Rightarrow> jsstring \<Rightarrow> jsstring" where
  "emojiOr env emojis key fallback =
     (case key of
        None \<Rightarrow> fallback
      | Some k \<Rightarrow>
          (case getProp emojis k of
             Own e \<Rightarrow> if e = [] then fallback else e
           | Inherited \<Rightarrow> re_inherited env k
           | Undefined \<Rightarrow> fallback))"

definition getSeverityEmoji :: "renderEnv \<Rightarrow> jsstring option \<Rightarrow> jsstring" where
  "getSeverityEmoji env severity = emojiOr env severityEmojis severity [0x26AA]"

definition getStatusEmoji :: "renderEnv \<Rightarrow> jsstring \<Rightarrow> jsstring" where
  "getStatusEmoji env status = emojiOr env statusEmojis (Some status) [0x2753]"

subsection \<open>The recommendation list\<close>

record recommendation =
  rec_severity :: "jsstring option"
  rec_name :: jsstring
  rec_recommendation :: jsstring

text \<open>The two nested \<open>forEach\<close> loops that collect every test with a truthy recommendation.\<close>

definition pushRecommendation :: "finding \<Rightarrow> recommendation list \<Rightarrow> recommendation list" where
  "pushRecommendation test recommendations =
     (if truthyStr (f_recommendation test)
      then recommendations @
             [\<lparr>rec_severity = f_severity test, rec_name = f_name test,
               rec_recommendation = the (f_recommendation test)\<rparr>]
      else recommendations)"

definition collectRecommendations :: "reporter \<Rightarrow> recommendation list" where
  "collectRecommendations r =
     fold (\<lambda>category recs. fold pushRecommendation (cr_tests category) recs) (r_results r) []"

definition severityOrder :: "(jsstring \<times> nat) list" where
  "severityOrder =
     [(asc ''critical'', 0), (asc ''high'', 1), (asc ''medium'', 2), (asc ''low'', 3),
      (asc ''info'', 4)]"

text \<open>
  \<open>severityOrder[a.severity]\<close> is a number only for the five keys of the table; for any
  other severity, and for none, the read gives no number.
\<close>

definition severityRank :: "jsstring option \<Rightarrow> nat option" where
  "severityRank severity =
     (case severity of
        None \<Rightarrow> None
      | Some s \<Rightarrow> (case getProp severityOrder s of Own n \<Rightarrow> Some n | _ \<Rightarrow> None))"

text \<open>
  The comparator \<open>(a, b) => severityOrder[a.severity] - severityOrder[b.severity]\<close>;
  \<open>None\<close> is NaN, the difference when either read gives no number.
\<close>

definition compareSeverity :: "recommendation \<Rightarrow> recommendation \<Rightarrow> int option" where
  "compareSeverity a b =
     (case (severityRank (rec_severity a), severityRank (rec_severity b)) of
        (Some x, Some y) \<Rightarrow> Some (int x - int y)
      | _ \<Rightarrow> None)"

text \<open>
  \<open>Array.prototype.sort\<close> with a comparator. The language fixes the result for a
  consistent comparator: the stable sort. The model is the insertion sort that places
  each next element behind every element it is not smaller than, reading a NaN from the
  comparator as \<open>+0\<close>. Where the comparator is not consistent (it gives NaN for some
  pair) the language leaves the order to the engine, and for three or more elements
  Node's order can differ from the one of this model; only the results for consistent
  comparators, and for two elements, are those of every engine.
\<close>

definition SortCompare :: "('a \<Rightarrow> 'a \<Rightarrow> int option) \<Rightarrow> 'a \<Rightarrow> 'a \<Rightarrow> int" where
  "SortCompare comparefn x y = (case comparefn x y of None \<Rightarrow> 0 | Some v \<Rightarrow> v)"

fun insertSorted :: "('a \<Rightarrow> 'a \<Rightarrow> int option) \<Rightarrow> 'a \<Rightarrow> 'a list \<Rightarrow> 'a list" where
  "insertSorted comparefn x [] = [x]"
| "insertSorted comparefn x (y # ys) =
     (if SortCompare comparefn x y < 0 then x # y # ys
      else y # insertSorted comparefn x ys)"

definition Array_sort :: "('a \<Rightarrow> 'a \<Rightarrow> int option) \<Rightarrow> 'a list \<Rightarrow> 'a list" where
  "Array_sort comparefn xs = fold (insertSorted comparefn) xs []"

definition recommendations :: "reporter \<Rightarrow> recommendation list" where
  "recommendations r = Array_sort compareSeverity (collectRecommendations r)"

subsection \<open>generateLinearReport\<close>

text \<open>All tests of the report in the order the nested \<open>forEach\<close> loops visit them.\<close>

definition allTests :: "reporter \<Rightarrow> finding list" where
  "allTests r = concat (map cr_tests (r_results r))"

text \<open>The lines one headline block prints for its findings.\<close>

definition findingLines :: "finding list \<Rightarrow> jsstring" where
  "findingLines fs =
     concat (map (\<lambda>f. asc ''- **'' @ f_name f @ asc ''**: '' @ f_details f @ [0xA] @
                      (if truthyStr (f_recommendation f)
                       then asc ''  - '' @ [0xD83D, 0xDCA1] @ asc '' *Recomendaci'' @ [0xF3] @
                            asc ''n:* '' @ the (f_recommendation f) @ [0xA]
                       else [])) fs)"

definition headlineBlock :: "jsstring \<Rightarrow> finding list \<Rightarrow> jsstring" where
  "headlineBlock title fs = (if length fs > 0 then title @ findingLines fs @ [0xA] else [])"

text \<open>
  The three headline blocks: the tests are distributed by severity into critical, high,
  medium and other findings, and the first three groups are printed.
\<close>

definition headlineSection :: "reporter \<Rightarrow> jsstring" where
  "headlineSection r =
     (let criticalFindings = filter (\<lambda>t. f_severity t = Some (asc ''critical'')) (allTests r);
          highFindings = filter (\<lambda>t. f_severity t = Some (asc ''high'')) (allTests r);
          mediumFindings = filter (\<lambda>t. f_severity t = Some (asc ''medium'')) (allTests r)
      in headlineBlock (asc ''### '' @ [0xD83D, 0xDD34] @ asc '' Problemas Cr'' @ [0xED] @
                        asc ''ticos'' @ [0xA, 0xA]) criticalFindings @
         headlineBlock (asc ''### '' @ [0xD83D, 0xDFE0] @ asc '' Problemas de Alta Prioridad'' @
                        [0xA, 0xA]) highFindings @
         headlineBlock (asc ''### '' @ [0xD83D, 0xDFE1] @ asc '' Problemas de Prioridad Media'' @
                        [0xA, 0xA]) mediumFindings)"

text \<open>One row of a category's table: \<open>substring\<close> cuts, newlines become spaces.\<close>

definition detailRow :: "renderEnv \<Rightarrow> finding \<Rightarrow> jsstring" where
  "detailRow env test =
     (let status = getStatusEmoji env (f_status test);
          shown = take 30 (f_value test);
          details = map (\<lambda>c. if c = 0xA then 0x20 else c) (take 50 (f_details test))
      in asc ''| '' @ f_name test @ asc '' | '' @ status @ asc '' | '' @ shown @ asc '' | '' @
         details @ asc ''... |'' @ [0xA])"

definition detailSection :: "renderEnv \<Rightarrow> reporter \<Rightarrow> jsstring" where
  "detailSection env r =
     concat (map (\<lambda>category.
        asc ''### '' @ cr_name category @ [0xA, 0xA] @
        asc ''| Test | Estado | Valor | Detalles |'' @ [0xA] @
        asc ''|------|--------|-------|----------|'' @ [0xA] @
        concat (map (detailRow env) (cr_tests category)) @ [0xA]) (r_results r))"

definition recommendationLine :: "renderEnv \<Rightarrow> nat \<times> recommendation \<Rightarrow> jsstring" where
  "recommendationLine env p =
     (case p of (index, rec) \<Rightarrow>
        showNat (index + 1) @ asc ''. '' @ getSeverityEmoji env (rec_severity rec) @ asc '' **'' @
        rec_name rec @ asc ''**: '' @ rec_recommendation rec @ [0xA])"

definition recommendationSection :: "renderEnv \<Rightarrow> reporter \<Rightarrow> jsstring" where
  "recommendationSection env r =
     (if length (recommendations r) > 0
      then concat (map (recommendationLine env) (enumerate 0 (recommendations r)))
      else [0xA1] @ asc ''No hay recomendaciones pendientes! El sitio parece estar bien configurado.'' @
           [0xA])"

definition generateLinearReport :: "renderEnv \<Rightarrow> reporter \<Rightarrow> jsstring" where
  "generateLinearReport env r =
     (let summary = getSummary r;
          duration = (case (r_endTime r, r_startTime r) of
                        (Some endTime, Some startTime) \<Rightarrow> re_toFixed1 env (endTime - startTime)
                      | _ \<Rightarrow> asc ''?'');
          report =
            asc ''# '' @ [0xD83D, 0xDD0D] @ asc '' Reporte de Seguridad y Testing Web'' @ [0xA, 0xA] @
            asc ''**URL Analizada:** '' @ r_url r @
            [0xA] @ asc ''**Fecha:** '' @ re_now env @
            [0xA] @ asc ''**Duraci'' @ [0xF3] @ asc ''n del An'' @ [0xE1] @ asc ''lisis:** '' @ duration @
            asc '' segundos'' @ [0xA, 0xA] @ asc ''---'' @ [0xA, 0xA] @
            asc ''## '' @ [0xD83D, 0xDCCA] @ asc '' Resumen Ejecutivo'' @ [0xA, 0xA] @
            asc ''| Severidad | Cantidad |'' @ [0xA] @ asc ''|-----------|----------|'' @ [0xA] @
            asc ''| '' @ [0xD83D, 0xDD34] @ asc '' Cr'' @ [0xED] @ asc ''tico | '' @
            showNat (sm_critical summary) @
            asc '' |'' @ [0xA] @ asc ''| '' @ [0xD83D, 0xDFE0] @ asc '' Alto | '' @
            showNat (sm_high summary) @
            asc '' |'' @ [0xA] @ asc ''| '' @ [0xD83D, 0xDFE1] @ asc '' Medio | '' @
            showNat (sm_medium summary) @
            asc '' |'' @ [0xA] @ asc ''| '' @ [0xD83D, 0xDD35] @ asc '' Bajo | '' @
            showNat (sm_low summary) @
            asc '' |'' @ [0xA] @ asc ''| '' @ [0x2705] @ asc '' Pasados | '' @
            showNat (sm_passed summary) @
            asc '' |'' @ [0xA, 0xA] @ asc ''---'' @ [0xA, 0xA] @
            asc ''## '' @ [0xD83C, 0xDFAF] @ asc '' Hallazgos Principales'' @ [0xA, 0xA];
          report = report @ headlineSection r;
          report = report @ asc ''---'' @ [0xA, 0xA] @ asc ''## '' @ [0xD83D, 0xDCCB] @
                   asc '' Detalle por Categor'' @ [0xED] @ asc ''a'' @ [0xA, 0xA];
          report = report @ detailSection env r;
          report = report @ asc ''---'' @ [0xA, 0xA] @ asc ''## '' @ [0xD83D, 0xDEE0, 0xFE0F] @
                   asc '' Recomendaciones de Acci'' @ [0xF3] @ asc ''n'' @ [0xA, 0xA];
          report = report @ recommendationSection env r;
          report = report @
            [0xA] @ asc ''---'' @ [0xA, 0xA] @ asc ''## '' @ [0xD83D, 0xDCDD] @
            asc '' Notas para Linear'' @ [0xA, 0xA] @ asc ''**Labels sugeridos:** '' @
            [0x60] @ asc ''security'' @ [0x60] @ asc '', '' @ [0x60] @ asc ''testing'' @ [0x60] @
            asc '', '' @ [0x60] @ asc ''web'' @ [0x60, 0xA] @ asc ''**Prioridad sugerida:** '' @
            (if sm_critical summary > 0 then asc ''Urgent''
             else if sm_high summary > 0 then asc ''High''
             else if sm_medium summary > 0 then asc ''Medium'' else asc ''Low'') @
            [0xA, 0xA] @ asc ''---'' @ [0xA, 0xA] @ asc ''*Reporte generado autom'' @ [0xE1] @
            asc ''ticamente por WebTester v1.0*'' @ [0xA]
      in report)"

text \<open>\<open>copyToClipboard\<close> returns the markdown report.\<close>

definition copyToClipboard :: "renderEnv \<Rightarrow> reporter \<Rightarrow> jsstring" where
  "copyToClipboard env r = generateLinearReport env r"

section \<open>The monitor (src/monitor.js)\<close>

subsection \<open>Configuration and state\<close>

definition DEFAULT_ASSIGNEE :: jsstring where
  "DEFAULT_ASSIGNEE = asc ''09375327-6e18-4035-ac85-233f290392bb''"

record checksConfig =
  ck_httpStatus :: bool
  ck_responseTime :: bool
  ck_sslExpiry :: bool
  ck_jsErrors :: bool

record thresholds =
  th_responseTime :: int
  th_sslExpiryDays :: int

record monitorConfig =
  mc_urls :: "jsstring list"
  mc_teamId :: "jsstring option"
  mc_assigneeId :: jsstring
  mc_checks :: checksConfig
  mc_thresholds :: thresholds

record historyEntry =
  h_timestamp :: jsstring
  h_results :: "(jsstring \<times> jsstring) list"

text \<open>
  \<open>alerts\<close> is a JavaScript object used as a map from alert key to epoch milliseconds;
  the association list keeps the order of its keys, as the saved JSON does.
\<close>

record monitorState =
  ms_lastCheck :: "jsstring option"
  ms_alerts :: "(jsstring \<times> int) list"
  ms_history :: "historyEntry list"

text \<open>
  A persisted file as the loaders meet it: absent, present but failing to be read, or
  present with a text. \<open>JSON.parse\<close> is a parameter: \<open>None\<close> when it raises a
  SyntaxError, else the parsed document, taken to have the shape of the record.
\<close>

datatype jsonFile = Missing | Unreadable | Content jsstring

text \<open>
  The body of the \<open>try\<close> block of the loaders: \<open>existsSync\<close>, \<open>readFileSync\<close>,
  \<open>JSON.parse\<close>. \<open>Inr None\<close> is the fall-through when the file does not exist.
\<close>

definition readJSON :: "(jsstring \<Rightarrow> 'a option) \<Rightarrow> jsonFile \<Rightarrow> jsError + 'a option" where
  "readJSON parse f =
     (case f of
        Missing \<Rightarrow> Inr None
      | Unreadable \<Rightarrow> Inl IOError
      | Content text \<Rightarrow>
          (case parse text of None \<Rightarrow> Inl SyntaxError | Some v \<Rightarrow> Inr (Some v)))"

definition defaultConfig :: monitorConfig where
  "defaultConfig =
     \<lparr>mc_urls = [], mc_teamId = None, mc_assigneeId = DEFAULT_ASSIGNEE,
      mc_checks = \<lparr>ck_httpStatus = True, ck_responseTime = True, ck_sslExpiry = True,
                    ck_jsErrors = False\<rparr>,
      mc_thresholds = \<lparr>th_responseTime = 5000, th_sslExpiryDays = 14\<rparr>\<rparr>"

definition defaultState :: monitorState where
  "defaultState = \<lparr>ms_lastCheck = None, ms_alerts = [], ms_history = []\<rparr>"

text \<open>\<open>try { if (exists) return parse(read) } catch (e) {} return defaults\<close>.\<close>

definition loadConfig :: "(jsstring \<Rightarrow> monitorConfig option) \<Rightarrow> jsonFile \<Rightarrow> monitorConfig" where
  "loadConfig parse f =
     (case readJSON parse f of
        Inr (Some config) \<Rightarrow> config
      | Inr None \<Rightarrow> defaultConfig
      | Inl e \<Rightarrow> defaultConfig)"

definition loadState :: "(jsstring \<Rightarrow> monitorState option) \<Rightarrow> jsonFile \<Rightarrow> monitorState" where
  "loadState parse f =
     (case readJSON parse f of
        Inr (Some state) \<Rightarrow> state
      | Inr None \<Rightarrow> defaultState
      | Inl e \<Rightarrow> defaultState)"

text \<open>
  \<open>LinearClient\<close> (src/linearClient.js): the constructor reads the API key from its own
  file, swallowing every error; the parsed document is given by its \<open>apiKey\<close> property.
\<close>

record linearClient =
  lc_apiKey :: "jsstring option"

definition newLinearClient :: "(jsstring \<Rightarrow> jsstring option option) \<Rightarrow> jsonFile \<Rightarrow> linearClient" where
  "newLinearClient parse f =
     \<lparr>lc_apiKey = (case readJSON parse f of Inr (Some apiKey) \<Rightarrow> apiKey | _ \<Rightarrow> None)\<rparr>"

definition isConfigured :: "linearClient \<Rightarrow> bool" where
  "isConfigured linear = truthyStr (lc_apiKey linear)"

record monitor =
  m_config :: monitorConfig
  m_state :: monitorState
  m_linear :: linearClient

text \<open>The constructor of \<open>Monitor\<close>, given the three files and their parsers.\<close>

definition newMonitor ::
  "(jsstring \<Rightarrow> monitorConfig option) \<Rightarrow> jsonFile \<Rightarrow> (jsstring \<Rightarrow> monitorState option) \<Rightarrow> jsonFile \<Rightarrow>
   (jsstring \<Rightarrow> jsstring option option) \<Rightarrow> jsonFile \<Rightarrow> monitor" where
  "newMonitor parseConfig configFile parseState stateFile parseLinear linearFile =
     \<lparr>m_config = loadConfig parseConfig configFile,
      m_state = loadState parseState stateFile,
      m_linear = newLinearClient parseLinear linearFile\<rparr>"

subsection \<open>checkUrl\<close>

record issue =
  i_type :: jsstring
  i_title :: jsstring
  i_description :: jsstring
  i_priority :: nat

text \<open>
  What one visit of a URL meets: the time stamp of the result, the outcome of the HTTP
  request (a response with status and elapsed milliseconds, or a failure with its
  message), the outcome of \<open>checkSSL\<close>, the text \<open>new Date().toLocaleString()\<close> gives
  when the \<open>n\<close>-th issue of the visit is built, and the reading of \<open>Date.now()\<close> when
  \<open>runChecks\<close> examines the \<open>n\<close>-th issue of the visit.
\<close>

datatype httpOutcome = Response int int | RequestFailed jsstring

datatype daysValue = DaysNull | DaysNaN | Days int

record sslInfo =
  ssl_valid :: bool
  ssl_expiryDate :: "jsstring option"
  ssl_daysUntilExpiry :: daysValue
  ssl_issuer :: "jsstring option"

datatype sslOutcome = Resolved sslInfo | Rejected jsstring

record urlWorld =
  uw_timestamp :: jsstring
  uw_http :: httpOutcome
  uw_ssl :: sslOutcome
  uw_localeTime :: "nat \<Rightarrow> jsstring"
  uw_now :: "nat \<Rightarrow> int"

datatype httpStatusField = StatusCode int | StatusError

datatype sslField = SslInfo sslInfo | SslFieldError jsstring

record checks =
  ch_httpStatus :: "httpStatusField option"
  ch_responseTime :: "int option"
  ch_error :: "jsstring option"
  ch_ssl :: "sslField option"

record checkResult =
  res_url :: jsstring
  res_timestamp :: jsstring
  res_status :: jsstring
  res_checks :: checks
  res_issues :: "issue list"

text \<open>Interpolation of a value that may be \<open>undefined\<close>.\<close>

fun interp :: "jsstring option \<Rightarrow> jsstring" where
  "interp None = asc ''undefined''"
| "interp (Some s) = s"

text \<open>
  The body of the \<open>try\<close> block of the HTTP status check, once the request has
  answered. \<open>hostname\<close> is \<open>new URL(url).hostname\<close>, \<open>None\<close> when the constructor
  throws. \<open>Inl\<close> carries the message thrown and the checks recorded so far.
\<close>

definition httpStatusTry ::
  "monitorConfig \<Rightarrow> (jsstring \<Rightarrow> jsstring option) \<Rightarrow> urlWorld \<Rightarrow> jsstring \<Rightarrow> int \<Rightarrow> int \<Rightarrow>
   jsstring \<times> checks + checks \<times> issue list" where
  "httpStatusTry cfg hostname uw url status responseTime =
     (let checks = \<lparr>ch_httpStatus = Some (StatusCode status), ch_responseTime = Some responseTime,
                     ch_error = None, ch_ssl = None\<rparr>;
          slow = (responseTime > th_responseTime (mc_thresholds cfg))
      in if status \<ge> 400 \<or> slow then
           (case hostname url of
              None \<Rightarrow> Inl (asc ''Invalid URL'', checks)
            | Some host \<Rightarrow>
                (let issues =
                   (if status \<ge> 500 then
                      [\<lparr>i_type = asc ''critical'',
                        i_title = [0xD83D, 0xDD34] @ asc '' ERROR '' @ showInt status @ asc '' en '' @ host,
                        i_description = asc ''El servidor respondi'' @ [0xF3] @ asc '' con error '' @
                          showInt status @ asc ''.'' @ [0xA, 0xA] @ asc ''URL: '' @ url @
                          [0xA] @ asc ''Tiempo: '' @ uw_localeTime uw 0,
                        i_priority = 1\<rparr>]
                    else if status \<ge> 400 then
                      [\<lparr>i_type = asc ''error'',
                        i_title = [0xD83D, 0xDFE0] @ asc '' ERROR '' @ showInt status @ asc '' en '' @ host,
                        i_description = asc ''La p'' @ [0xE1] @ asc ''gina respondi'' @ [0xF3] @
                          asc '' con error '' @ showInt status @ asc ''.'' @ [0xA, 0xA] @
                          asc ''URL: '' @ url @ [0xA] @ asc ''Tiempo: '' @ uw_localeTime uw 0,
                        i_priority = 2\<rparr>]
                    else []);
                     issues =
                   (if slow then
                      issues @
                      [\<lparr>i_type = asc ''warning'',
                        i_title = [0xD83D, 0xDFE1] @ asc '' Respuesta lenta en '' @ host,
                        i_description = asc ''El sitio tard'' @ [0xF3] @ asc '' '' @
                          showInt responseTime @ asc ''ms en responder (umbral: '' @
                          showInt (th_responseTime (mc_thresholds cfg)) @ asc ''ms).'' @
                          [0xA, 0xA] @ asc ''URL: '' @ url @ [0xA] @ asc ''Tiempo: '' @
                          uw_localeTime uw (length issues),
                        i_priority = 3\<rparr>]
                    else issues)
                 in Inr (checks, issues)))
         else Inr (checks, []))"

text \<open>
  The \<open>catch\<close> block of the HTTP status check. It builds its issue with
  \<open>new URL(url).hostname\<close> again; when that throws, nothing catches it and \<open>checkUrl\<close>
  is rejected.
\<close>

definition httpStatusCatch ::
  "(jsstring \<Rightarrow> jsstring option) \<Rightarrow> urlWorld \<Rightarrow> jsstring \<Rightarrow> jsstring \<Rightarrow> checks \<Rightarrow>
   jsError + checks \<times> issue list" where
  "httpStatusCatch hostname uw url message checks =
     (let checks = checks\<lparr>ch_httpStatus := Some StatusError, ch_error := Some message\<rparr>
      in case hostname url of
           None \<Rightarrow> Inl TypeError
         | Some host \<Rightarrow>
             Inr (checks,
               [\<lparr>i_type = asc ''critical'',
                 i_title = [0xD83D, 0xDD34] @ asc '' SITIO CA'' @ [0xCD] @ asc ''DO: '' @ host,
                 i_description = asc ''No se pudo conectar al sitio.'' @ [0xA, 0xA] @
                   asc ''URL: '' @ url @ [0xA] @ asc ''Error: '' @ message @
                   [0xA] @ asc ''Tiempo: '' @ uw_localeTime uw 0,
                 i_priority = 1\<rparr>]))"

definition emptyChecks :: checks where
  "emptyChecks = \<lparr>ch_httpStatus = None, ch_responseTime = None, ch_error = None, ch_ssl = None\<rparr>"

text \<open>The block \<open>// HTTP Status Check\<close> of \<open>checkUrl\<close>.\<close>

definition httpStatusCheck ::
  "monitorConfig \<Rightarrow> (jsstring \<Rightarrow> jsstring option) \<Rightarrow> urlWorld \<Rightarrow> jsstring \<Rightarrow>
   jsError + checks \<times> issue list" where
  "httpStatusCheck cfg hostname uw url =
     (if ck_httpStatus (mc_checks cfg) then
        (case uw_http uw of
           RequestFailed message \<Rightarrow> httpStatusCatch hostname uw url message emptyChecks
         | Response status responseTime \<Rightarrow>
             (case httpStatusTry cfg hostname uw url status responseTime of
                Inr checked \<Rightarrow> Inr checked
              | Inl (message, checks) \<Rightarrow> httpStatusCatch hostname uw url message checks))
      else Inr (emptyChecks, []))"

text \<open>
  The block \<open>// SSL Check\<close>: it runs for \<open>https://\<close> URLs; every error inside it,
  that of \<open>new URL(url)\<close> included, is caught and recorded in \<open>checks.ssl\<close>.
\<close>

definition sslCheck ::
  "monitorConfig \<Rightarrow> (jsstring \<Rightarrow> jsstring option) \<Rightarrow> urlWorld \<Rightarrow> jsstring \<Rightarrow>
   checks \<times> issue list \<Rightarrow> checks \<times> issue list" where
  "sslCheck cfg hostname uw url acc =
     (case acc of (checks, issues) \<Rightarrow>
        if ck_sslExpiry (mc_checks cfg) \<and> take 8 url = asc ''https://'' then
          (case uw_ssl uw of
             Rejected message \<Rightarrow> (checks\<lparr>ch_ssl := Some (SslFieldError message)\<rparr>, issues)
           | Resolved info \<Rightarrow>
               (let checks = checks\<lparr>ch_ssl := Some (SslInfo info)\<rparr>
                in case ssl_daysUntilExpiry info of
                     DaysNull \<Rightarrow> (checks, issues)
                   | DaysNaN \<Rightarrow> (checks, issues)
                   | Days days \<Rightarrow>
                       if days < 0 \<or> days < th_sslExpiryDays (mc_thresholds cfg) then
                         (case hostname url of
                            None \<Rightarrow>
                              (checks\<lparr>ch_ssl := Some (SslFieldError (asc ''Invalid URL''))\<rparr>, issues)
                          | Some host \<Rightarrow>
                              if days < 0 then
                                (checks, issues @
                                  [\<lparr>i_type = asc ''critical'',
                                    i_title = [0xD83D, 0xDD34] @ asc '' CERTIFICADO SSL EXPIRADO: '' @ host,
                                    i_description = asc ''El certificado SSL expir'' @ [0xF3] @
                                      asc '' hace '' @ showInt (abs days) @ asc '' d'' @ [0xED] @
                                      asc ''as.'' @ [0xA, 0xA] @ asc ''URL: '' @ url @
                                      [0xA] @ asc ''Expir'' @ [0xF3] @ asc '': '' @
                                      interp (ssl_expiryDate info) @
                                      [0xA] @ asc ''Tiempo: '' @ uw_localeTime uw (length issues),
                                    i_priority = 1\<rparr>])
                              else
                                (checks, issues @
                                  [\<lparr>i_type = asc ''warning'',
                                    i_title = [0xD83D, 0xDFE1] @ asc '' SSL por expirar: '' @ host,
                                    i_description = asc ''El certificado SSL expira en '' @
                                      showInt days @ asc '' d'' @ [0xED] @ asc ''as.'' @
                                      [0xA, 0xA] @ asc ''URL: '' @ url @
                                      [0xA] @ asc ''Expira: '' @ interp (ssl_expiryDate info) @
                                      [0xA] @ asc ''Tiempo: '' @ uw_localeTime uw (length issues),
                                    i_priority = 2\<rparr>]))
                       else (checks, issues)))
        else (checks, issues))"

definition overallStatus :: "issue list \<Rightarrow> jsstring" where
  "overallStatus issues =
     (if length issues > 0
      then (if list_ex (\<lambda>i. i_type i = asc ''critical'') issues then asc ''critical''
            else asc ''warning'')
      else asc ''ok'')"

definition checkUrl ::
  "monitorConfig \<Rightarrow> (jsstring \<Rightarrow> jsstring option) \<Rightarrow> urlWorld \<Rightarrow> jsstring \<Rightarrow>
   jsError + checkResult" where
  "checkUrl cfg hostname uw url =
     (case httpStatusCheck cfg hostname uw url of
        Inl e \<Rightarrow> Inl e
      | Inr afterHttp \<Rightarrow>
          (case sslCheck cfg hostname uw url afterHttp of
             (checks, issues) \<Rightarrow>
               Inr \<lparr>res_url = url, res_timestamp = uw_timestamp uw,
                    res_status = overallStatus issues, res_checks = checks,
                    res_issues = issues\<rparr>))"

subsection \<open>runChecks\<close>

record newIssue = issue +
  ni_url :: jsstring

text \<open>\<open>{ ...issue, url }\<close>.\<close>

definition withUrl :: "issue \<Rightarrow> jsstring \<Rightarrow> newIssue" where
  "withUrl issue url =
     \<lparr>i_type = i_type issue, i_title = i_title issue, i_description = i_description issue,
      i_priority = i_priority issue, ni_url = url\<rparr>"

definition alertKeyOf :: "jsstring \<Rightarrow> 'a issue_scheme \<Rightarrow> jsstring" where
  "alertKeyOf url issue = url @ asc ''-'' @ i_type issue @ asc ''-'' @ i_title issue"

text \<open>\<open>!lastAlert\<close>: true for a key that is absent and for a stored time stamp of 0.\<close>

fun notNumber :: "int option \<Rightarrow> bool" where
  "notNumber None = True"
| "notNumber (Some t) = (t = 0)"

text \<open>
  The loop over \<open>result.issues\<close> in \<open>runChecks\<close>; \<open>n\<close> counts the issues of the
  visit examined so far, the pair is \<open>this.state.alerts\<close> and \<open>newIssues\<close>. An alert
  key contains \<open>-\<close>, so it never names a member inherited from \<open>Object.prototype\<close>:
  the read \<open>alerts[alertKey]\<close> is a plain lookup.
\<close>

fun checkNewIssues ::
  "urlWorld \<Rightarrow> jsstring \<Rightarrow> nat \<Rightarrow> issue list \<Rightarrow> (jsstring \<times> int) list \<times> newIssue list \<Rightarrow>
   (jsstring \<times> int) list \<times> newIssue list" where
  "checkNewIssues uw url n [] acc = acc"
| "checkNewIssues uw url n (issue # rest) (alerts, newIssues) =
     (let alertKey = alertKeyOf url issue;
          lastAlert = map_of alerts alertKey;
          now = uw_now uw n
      in if notNumber lastAlert \<or> now - the lastAlert > 4 * 60 * 60 * 1000
         then checkNewIssues uw url (Suc n) rest
                (AList.update alertKey now alerts, newIssues @ [withUrl issue url])
         else checkNewIssues uw url (Suc n) rest (alerts, newIssues))"

text \<open>
  What one cycle meets: the URL parser, the world of the \<open>n\<close>-th visit, the time stamp
  read after the loop, and whether writing the state file succeeds.
\<close>

record cycleWorld =
  cw_hostname :: "jsstring \<Rightarrow> jsstring option"
  cw_visit :: "nat \<Rightarrow> urlWorld"
  cw_lastCheck :: jsstring
  cw_writeOk :: bool

record cycle =
  cy_results :: "checkResult list"
  cy_newIssues :: "newIssue list"
  cy_alerts :: "(jsstring \<times> int) list"
  cy_log :: "jsstring list"

text \<open>\<open>toUpperCase\<close>, on the ASCII words it is applied to here.\<close>

definition toUpperCase :: "jsstring \<Rightarrow> jsstring" where
  "toUpperCase s = map (\<lambda>c. if 97 \<le> c \<and> c \<le> 122 then c - 32 else c) s"

definition statusLine :: "checkResult \<Rightarrow> jsstring" where
  "statusLine result =
     (let statusIcon = (if res_status result = asc ''ok'' then [0x2705]
                        else if res_status result = asc ''critical'' then [0xD83D, 0xDD34]
                        else [0xD83D, 0xDFE1])
      in asc ''    '' @ statusIcon @ asc '' '' @ toUpperCase (res_status result) @ asc '' - '' @
         showInt (case ch_responseTime (res_checks result) of None \<Rightarrow> 0 | Some t \<Rightarrow> t) @
         asc ''ms'')"

text \<open>The loop over \<open>this.config.urls\<close>; a rejected \<open>checkUrl\<close> ends the cycle.\<close>

fun checkUrls ::
  "monitorConfig \<Rightarrow> cycleWorld \<Rightarrow> bool \<Rightarrow> nat \<Rightarrow> jsstring list \<Rightarrow> cycle \<Rightarrow> jsError + cycle" where
  "checkUrls cfg w verbose n [] c = Inr c"
| "checkUrls cfg w verbose n (url # rest) c =
     (let lg = cy_log c @ (if verbose then [asc ''  Checking '' @ url @ asc ''...''] else [])
      in case checkUrl cfg (cw_hostname w) (cw_visit w n) url of
           Inl e \<Rightarrow> Inl e
         | Inr result \<Rightarrow>
             (case checkNewIssues (cw_visit w n) url 0 (res_issues result)
                     (cy_alerts c, cy_newIssues c) of
                (alerts, newIssues) \<Rightarrow>
                  checkUrls cfg w verbose (Suc n) rest
                    \<lparr>cy_results = cy_results c @ [result], cy_newIssues = newIssues,
                     cy_alerts = alerts,
                     cy_log = lg @ (if verbose then [statusLine result] else [])\<rparr>))"

record checksRun =
  run_state :: monitorState
  run_results :: "checkResult list"
  run_newIssues :: "newIssue list"
  run_log :: "jsstring list"

definition historyEntryOf :: "jsstring \<Rightarrow> checkResult list \<Rightarrow> historyEntry" where
  "historyEntryOf lastCheck results =
     \<lparr>h_timestamp = lastCheck, h_results = map (\<lambda>r. (res_url r, res_status r)) results\<rparr>"

text \<open>The variables of \<open>runChecks\<close> before the first URL, and what a verbose run has printed.\<close>

definition startCycle :: "monitorConfig \<Rightarrow> bool \<Rightarrow> monitorState \<Rightarrow> cycle" where
  "startCycle cfg verbose state =
     \<lparr>cy_results = [], cy_newIssues = [], cy_alerts = ms_alerts state,
      cy_log = (if verbose
                then [[0xA, 0xD83D, 0xDD0D] @ asc '' Monitoreando '' @
                      showNat (length (mc_urls cfg)) @ asc '' URL(s)...'' @ [0xA]]
                else [])\<rparr>"

definition runChecks ::
  "monitorConfig \<Rightarrow> cycleWorld \<Rightarrow> bool \<Rightarrow> monitorState \<Rightarrow> jsError + checksRun" where
  "runChecks cfg w verbose state =
     (case checkUrls cfg w verbose 0 (mc_urls cfg) (startCycle cfg verbose state) of
        Inl e \<Rightarrow> Inl e
      | Inr c \<Rightarrow>
          (let lastCheck = cw_lastCheck w;
               history = ms_history state @ [historyEntryOf lastCheck (cy_results c)];
               history = (if length history > 100
                          then drop (length history - 100) history else history);
               state = \<lparr>ms_lastCheck = Some lastCheck, ms_alerts = cy_alerts c,
                        ms_history = history\<rparr>
           in if cw_writeOk w
              then Inr \<lparr>run_state = state, run_results = cy_results c,
                        run_newIssues = cy_newIssues c, run_log = cy_log c\<rparr>
              else Inl IOError))"

subsection \<open>sendAlerts and monitor\<close>

record issueCreateInput =
  in_teamId :: jsstring
  in_title :: jsstring
  in_description :: jsstring
  in_priority :: nat
  in_assigneeId :: jsstring

record createdIssue =
  ci_id :: jsstring
  ci_identifier :: jsstring
  ci_url :: jsstring
  ci_title :: jsstring

text \<open>
  What the tracker answers to the \<open>n\<close>-th request of a batch: the issue was created,
  the answer reports no success, or the request fails with a message (the query throws,
  or the answer has no \<open>issueCreate\<close> to read).
\<close>

datatype dispatchOutcome = Created createdIssue | NotCreated | DispatchFailed jsstring

text \<open>The variables of the \<open>issueCreate\<close> mutation that \<open>sendAlerts\<close> builds for an issue.\<close>

definition issueCreateInputOf :: "monitorConfig \<Rightarrow> newIssue \<Rightarrow> issueCreateInput" where
  "issueCreateInputOf cfg issue =
     (let description = i_description issue @ [0xA, 0xA] @ asc ''---'' @ [0xA] @
                        asc ''*Alerta autom'' @ [0xE1] @ asc ''tica de ZTEST Monitor*''
      in \<lparr>in_teamId = the (mc_teamId cfg), in_title = i_title issue,
          in_description = description, in_priority = i_priority issue,
          in_assigneeId = mc_assigneeId cfg\<rparr>)"

text \<open>
  The loop of \<open>sendAlerts\<close>: one try/catch per issue; the pair is \<open>createdIssues\<close> and
  the console.
\<close>

fun dispatchIssues ::
  "monitorConfig \<Rightarrow> (nat \<Rightarrow> issueCreateInput \<Rightarrow> dispatchOutcome) \<Rightarrow> bool \<Rightarrow> nat \<Rightarrow>
   newIssue list \<Rightarrow> createdIssue list \<times> jsstring list \<Rightarrow> createdIssue list \<times> jsstring list" where
  "dispatchIssues cfg dispatch verbose n [] acc = acc"
| "dispatchIssues cfg dispatch verbose n (issue # rest) (createdIssues, lg) =
     (case dispatch n (issueCreateInputOf cfg issue) of
           Created created \<Rightarrow>
             dispatchIssues cfg dispatch verbose (Suc n) rest
               (createdIssues @ [created],
                lg @ (if verbose
                      then [asc ''  '' @ [0xD83D, 0xDCE8] @ asc '' Alerta enviada: '' @
                            ci_identifier created @ asc '' '' @ [0x2192] @ asc '' Gonzalo'']
                      else []))
         | NotCreated \<Rightarrow> dispatchIssues cfg dispatch verbose (Suc n) rest (createdIssues, lg)
         | DispatchFailed message \<Rightarrow>
             dispatchIssues cfg dispatch verbose (Suc n) rest
               (createdIssues,
                lg @ (if verbose
                      then [asc ''  '' @ [0x274C] @ asc '' Error enviando alerta: '' @ message]
                      else [])))"

definition sendAlerts ::
  "monitorConfig \<Rightarrow> linearClient \<Rightarrow> (nat \<Rightarrow> issueCreateInput \<Rightarrow> dispatchOutcome) \<Rightarrow> bool \<Rightarrow>
   newIssue list \<Rightarrow> createdIssue list \<times> jsstring list" where
  "sendAlerts cfg linear dispatch verbose issues =
     (if \<not> truthyStr (mc_teamId cfg) then
        ([], if verbose
             then [[0x26A0, 0xFE0F] @
                   asc ''  No hay equipo configurado. Usa: node index.js monitor setup'']
             else [])
      else if \<not> isConfigured linear then
        ([], if verbose
             then [[0x26A0, 0xFE0F] @ asc ''  Linear no est'' @ [0xE1] @ asc '' configurado.'']
             else [])
      else dispatchIssues cfg dispatch verbose 0 issues ([], []))"

record monitorRun =
  mo_state :: monitorState
  mo_results :: "checkResult list"
  mo_alerts :: "createdIssue list"
  mo_log :: "jsstring list"

definition monitor ::
  "monitorConfig \<Rightarrow> linearClient \<Rightarrow> cycleWorld \<Rightarrow> (nat \<Rightarrow> issueCreateInput \<Rightarrow> dispatchOutcome) \<Rightarrow>
   bool \<Rightarrow> monitorState \<Rightarrow> jsError + monitorRun" where
  "monitor cfg linear w dispatch verbose state =
     (case runChecks cfg w verbose state of
        Inl e \<Rightarrow> Inl e
      | Inr run \<Rightarrow>
          if length (run_newIssues run) > 0 then
            (let lg = run_log run @
                      (if verbose
                       then [[0xA, 0xD83D, 0xDEA8] @ asc '' '' @
                             showNat (length (run_newIssues run)) @
                             asc '' nueva(s) alerta(s) detectada(s):'']
                       else [])
             in case sendAlerts cfg linear dispatch verbose (run_newIssues run) of
                  (created, sent) \<Rightarrow>
                    Inr \<lparr>mo_state = run_state run, mo_results = run_results run,
                         mo_alerts = created, mo_log = lg @ sent\<rparr>)
          else
            Inr \<lparr>mo_state = run_state run, mo_results = run_results run, mo_alerts = [],
                 mo_log = run_log run @
                   (if verbose then [[0xA, 0x2705] @ asc '' Todo OK, sin alertas nuevas.'']
                    else [])\<rparr>)"

subsection \<open>Successive cycles\<close>

text \<open>
  Cycle after cycle, each starting from the state the one before saved; the list gives
  the world of each cycle.
\<close>

fun runCycles ::
  "monitorConfig \<Rightarrow> bool \<Rightarrow> cycleWorld list \<Rightarrow> monitorState \<Rightarrow> jsError + monitorState" where
  "runCycles cfg verbose [] state = Inr state"
| "runCycles cfg verbose (w # ws) state =
     (case runChecks cfg w verbose state of
        Inl e \<Rightarrow> Inl e
      | Inr run \<Rightarrow> runCycles cfg verbose ws (run_state run))"

subsection \<open>What a batch is expected to produce\<close>

text \<open>
  The answers of the tracker to the requests of a batch, in order; the issues created
  among them; and the lines a verbose run prints for them.
\<close>

definition dispatchOutcomes ::
  "monitorConfig \<Rightarrow> (nat \<Rightarrow> issueCreateInput \<Rightarrow> dispatchOutcome) \<Rightarrow> nat \<Rightarrow> newIssue list \<Rightarrow>
   dispatchOutcome list" where
  "dispatchOutcomes cfg dispatch n issues =
     map (\<lambda>(k, issue). dispatch k (issueCreateInputOf cfg issue)) (enumerate n issues)"

fun createdOf :: "dispatchOutcome list \<Rightarrow> createdIssue list" where
  "createdOf [] = []"
| "createdOf (Created created # os) = created # createdOf os"
| "createdOf (NotCreated # os) = createdOf os"
| "createdOf (DispatchFailed message # os) = createdOf os"

fun dispatchLog :: "dispatchOutcome list \<Rightarrow> jsstring list" where
  "dispatchLog [] = []"
| "dispatchLog (Created created # os) =
     (asc ''  '' @ [0xD83D, 0xDCE8] @ asc '' Alerta enviada: '' @ ci_identifier created @
      asc '' '' @ [0x2192] @ asc '' Gonzalo'') # dispatchLog os"
| "dispatchLog (NotCreated # os) = dispatchLog os"
| "dispatchLog (DispatchFailed message # os) =
     (asc ''  '' @ [0x274C] @ asc '' Error enviando alerta: '' @ message) # dispatchLog os"

text \<open>The readings of \<open>Date.now()\<close> that a cycle can take while it examines issues.\<close>

definition readings :: "cycleWorld \<Rightarrow> int set" where
  "readings w = {t. \<exists>v j. t = uw_now (cw_visit w v) j}"

subsection \<open>The deduplication rule in the words of the specification\<close>


text \<open>
  The issues a cycle examines, in order: those of the first result, then those of the
  second, and so on; each with the URL of its result and the reading of the clock taken
  when it is examined. \<open>v\<close> is the position of the first result in the cycle.
\<close>

fun examined :: "cycleWorld \<Rightarrow> nat \<Rightarrow> checkResult list \<Rightarrow> (jsstring \<times> issue \<times> int) list" where
  "examined w v [] = []"
| "examined w v (r # rs) =
     map (\<lambda>(j, issue). (res_url r, issue, uw_now (cw_visit w v) j)) (enumerate 0 (res_issues r)) @
     examined w (Suc v) rs"


section \<open>Example inputs\<close>

definition ex_finding :: finding where
  "ex_finding = \<lparr>f_name = asc ''Status'', f_status = asc ''pass'', f_value = asc ''200'',
     f_details = asc ''OK'', f_severity = Some (asc ''info''), f_recommendation = None\<rparr>"

definition ex_scanWorld :: scanWorld where
  "ex_scanWorld =
     \<lparr>sw_probe = (\<lambda>n p u. if p = TestSSL then Throws (asc ''boom'')
                           else Returns \<lparr>cr_name = showNat n, cr_tests = [ex_finding]\<rparr>),
      sw_startTime = 1000, sw_endTime = 2500\<rparr>"

definition ex_options :: options where
  "ex_options = \<lparr>o_only = Some (asc ''ssl,http''), o_skip = Some (asc ''browser''), o_quiet = True\<rparr>"

definition ex_rec_finding :: "string \<Rightarrow> jsstring option \<Rightarrow> jsstring option \<Rightarrow> finding" where
  "ex_rec_finding n sev rec =
     \<lparr>f_name = asc n, f_status = asc ''fail'', f_value = asc ''0'', f_details = asc ''d'',
      f_severity = sev, f_recommendation = rec\<rparr>"

definition ex_reporter :: "finding list \<Rightarrow> reporter" where
  "ex_reporter ts =
     \<lparr>r_results = [\<lparr>cr_name = asc ''Checks'', cr_tests = ts\<rparr>],
      r_url = asc ''https://example.com'', r_startTime = Some 1000, r_endTime = Some 2500\<rparr>"

definition ex_ranked :: reporter where
  "ex_ranked = ex_reporter
     [ex_rec_finding ''A'' (Some (asc ''low'')) (Some (asc ''fix A'')),
      ex_rec_finding ''B'' (Some (asc ''critical'')) (Some (asc ''fix B'')),
      ex_rec_finding ''C'' (Some (asc ''info'')) None,
      ex_rec_finding ''D'' (Some (asc ''low'')) (Some (asc ''fix D''))]"

definition ex_unranked :: reporter where
  "ex_unranked = ex_reporter
     [ex_rec_finding ''A'' None (Some (asc ''fix A'')),
      ex_rec_finding ''B'' (Some (asc ''critical'')) (Some (asc ''fix B'')),
      ex_rec_finding ''C'' (Some (asc ''high'')) (Some [])]"

definition ex_renderEnv :: "jsstring \<Rightarrow> renderEnv" where
  "ex_renderEnv now = \<lparr>re_now = now, re_toFixed1 = (\<lambda>ms. asc ''1.5''), re_inherited = (\<lambda>k. k)\<rparr>"

definition ex_urlWorld :: "httpOutcome \<Rightarrow> int \<Rightarrow> urlWorld" where
  "ex_urlWorld http now =
     \<lparr>uw_timestamp = asc ''2026-01-01T10:00:00.000Z'', uw_http = http,
      uw_ssl = Resolved \<lparr>ssl_valid = True, ssl_expiryDate = Some (asc ''1/6/2026''),
                          ssl_daysUntilExpiry = Days 90, ssl_issuer = Some (asc ''CA'')\<rparr>,
      uw_localeTime = (\<lambda>n. asc ''1/1/2026, 10:00:00 AM''), uw_now = (\<lambda>n. now)\<rparr>"

definition ex_hostname :: "jsstring \<Rightarrow> jsstring option" where
  "ex_hostname url = (if take 8 url = asc ''https://'' then Some (drop 8 url) else None)"

definition ex_issue :: issue where
  "ex_issue =
     \<lparr>i_type = asc ''critical'', i_title = asc ''ERROR 503 en example.com'',
      i_description = asc ''down'', i_priority = 1\<rparr>"

definition ex_config :: monitorConfig where
  "ex_config = defaultConfig\<lparr>mc_urls := [asc ''https://example.com''], mc_teamId := Some (asc ''team-1'')\<rparr>"

definition ex_cycleWorld :: "int \<Rightarrow> cycleWorld" where
  "ex_cycleWorld now =
     \<lparr>cw_hostname = ex_hostname, cw_visit = (\<lambda>n. ex_urlWorld (Response 503 120) now),
      cw_lastCheck = asc ''2026-01-01T10:00:01.000Z'', cw_writeOk = True\<rparr>"

definition ex_linear :: linearClient where
  "ex_linear = \<lparr>lc_apiKey = Some (asc ''lin_api_key'')\<rparr>"

definition ex_dispatch :: "nat \<Rightarrow> issueCreateInput \<Rightarrow> dispatchOutcome" where
  "ex_dispatch n input =
     (if n = 0 then DispatchFailed (asc ''Network Error'')
      else Created \<lparr>ci_id = asc ''id-1'', ci_identifier = asc ''ZT-1'',
                    ci_url = asc ''https://linear.app/zt/issue/ZT-1'', ci_title = in_title input\<rparr>)"



section \<open>The scan: category selection and probe isolation\<close>

lemma returned_append: "returned (xs @ ys) = returned xs @ returned ys"
  by (induction xs rule: returned.induct) simp_all
lemma thrown_append: "thrown (xs @ ys) = thrown xs @ thrown ys"
  by (induction xs rule: thrown.induct) simp_all
lemma errorLines_append: "errorLines (xs @ ys) = errorLines xs @ errorLines ys"
  by (induction xs rule: errorLines.induct) simp_all

lemma probeOutcomesFrom_append:
  "probeOutcomesFrom w url n (ps @ qs) =
     probeOutcomesFrom w url n ps @ probeOutcomesFrom w url (n + length ps) qs"
  by (simp add: probeOutcomesFrom_def enumerate_append_eq)

lemma runProbes_effect:
  "s_calls (runProbes w url ps s) = s_calls s + length ps \<and>
   r_results (s_reporter (runProbes w url ps s)) =
     r_results (s_reporter s) @ returned (probeOutcomesFrom w url (s_calls s) ps) \<and>
   s_log (runProbes w url ps s) =
     s_log s @ map (\<lambda>m. LogError (asc ''Error en test: '' @ m))
                (thrown (probeOutcomesFrom w url (s_calls s) ps)) \<and>
   r_url (s_reporter (runProbes w url ps s)) = r_url (s_reporter s) \<and>
   r_startTime (s_reporter (runProbes w url ps s)) = r_startTime (s_reporter s)"
proof (induction ps arbitrary: s)
  case Nil
  show ?case by (simp add: probeOutcomesFrom_def)
next
  case (Cons p ps)
  show ?case
  proof (cases "sw_probe w (s_calls s) p url")
    case (Returns r)
    then show ?thesis
      using Cons.IH[of "s\<lparr>s_calls := Suc (s_calls s), s_reporter := addResults r (s_reporter s)\<rparr>"]
      by (simp add: probeOutcomesFrom_def addResults_def)
  next
    case (Throws m)
    then show ?thesis
      using Cons.IH[of "s\<lparr>s_calls := Suc (s_calls s),
               s_log := s_log s @ [LogError (asc ''Error en test: '' @ m)]\<rparr>"]
      by (simp add: probeOutcomesFrom_def)
  qed
qed


lemma errorLines_map_LogError: "errorLines (map (\<lambda>m. LogError (f m)) ms) = map f ms"
  by (induction ms) simp_all

lemma errorLines_explain: "errorLines (explain v m lg) = errorLines lg"
  by (simp add: explain_def errorLines_append)

lemma probeCalls_Cons_Own:
  "getProp TEST_CATEGORIES k = Own c \<Longrightarrow> probeCalls (k # ks) = c_tests c @ probeCalls ks"
  by (simp add: probeCalls_def)

lemma runCategories_Inr:
  "runCategories w v url tot cur ks s = Inr s' \<Longrightarrow>
     r_results (s_reporter s') =
       r_results (s_reporter s) @ returned (probeOutcomesFrom w url (s_calls s) (probeCalls ks)) \<and>
     errorLines (s_log s') =
       errorLines (s_log s) @ map (\<lambda>m. asc ''Error en test: '' @ m)
                (thrown (probeOutcomesFrom w url (s_calls s) (probeCalls ks))) \<and>
     r_url (s_reporter s') = r_url (s_reporter s) \<and>
     r_startTime (s_reporter s') = r_startTime (s_reporter s)"
proof (induction ks arbitrary: s cur)
  case Nil
  then show ?case by (simp add: probeCalls_def probeOutcomesFrom_def)
next
  case (Cons k ks)
  from Cons.prems obtain c where own: "getProp TEST_CATEGORIES k = Own c"
    by (cases "getProp TEST_CATEGORIES k") simp_all
  define s1 where "s1 = runProbes w url (c_tests c)
     (s\<lparr>s_log := explain v (asc ''   '' @ c_description c)
                    (s_log s @ [LogStep (cur + 1) tot (c_name c)])\<rparr>)"
  from Cons.prems own have run: "runCategories w v url tot (cur + 1) ks s1 = Inr s'"
    by (simp add: s1_def Let_def)
  note ih = Cons.IH[OF run]
  have eff: "s_calls s1 = s_calls s + length (c_tests c)"
    "r_results (s_reporter s1) =
       r_results (s_reporter s) @ returned (probeOutcomesFrom w url (s_calls s) (c_tests c))"
    "errorLines (s_log s1) = errorLines (s_log s) @ map (\<lambda>m. asc ''Error en test: '' @ m)
                (thrown (probeOutcomesFrom w url (s_calls s) (c_tests c)))"
    "r_url (s_reporter s1) = r_url (s_reporter s)"
    "r_startTime (s_reporter s1) = r_startTime (s_reporter s)"
    unfolding s1_def
    using runProbes_effect[of w url "c_tests c" "s\<lparr>s_log := explain v (asc ''   '' @ c_description c)
                    (s_log s @ [LogStep (cur + 1) tot (c_name c)])\<rparr>"]
    by (simp_all add: errorLines_append errorLines_explain errorLines_map_LogError)
  show ?case
    using ih eff
    by (simp add: probeCalls_Cons_Own[OF own] probeOutcomesFrom_append returned_append
        thrown_append)
qed

lemma getProp_own_key:
  "k \<in> set (Object_keys obj) \<Longrightarrow> \<exists>c. getProp obj k = Own c"
  by (cases "map_of obj k") (auto simp: getProp_def Object_keys_def map_of_eq_None_iff)

lemma runCategories_total:
  "set ks \<subseteq> set (Object_keys TEST_CATEGORIES) \<Longrightarrow>
     \<exists>s'. runCategories w v url tot cur ks s = Inr s'"
proof (induction ks arbitrary: s cur)
  case Nil
  show ?case by simp
next
  case (Cons k ks)
  then obtain c where "getProp TEST_CATEGORIES k = Own c"
    using getProp_own_key[of k TEST_CATEGORIES] by auto
  then show ?case using Cons by (simp add: Let_def)
qed

lemma runTests_Inr:
  "runTests w url categories verbose = Inr (lg, rep) \<Longrightarrow>
     r_results rep = returned (probeOutcomesFrom w url 0 (probeCalls categories)) \<and>
     errorLines lg = map (\<lambda>m. asc ''Error en test: '' @ m)
                (thrown (probeOutcomesFrom w url 0 (probeCalls categories)))"
  unfolding runTests_def Let_def
  by (auto split: sum.splits dest!: runCategories_Inr
      simp: endTimer_def startTimer_def setUrl_def newReporter_def)

lemma runTests_total:
  assumes "set categories \<subseteq> set (Object_keys TEST_CATEGORIES)"
  shows "\<exists>lg rep. runTests w url categories verbose = Inr (lg, rep)"
proof -
  from runCategories_total[OF assms] obtain s' where
    "runCategories w verbose url (length categories) 0 categories
       \<lparr>s_calls = 0, s_log = [LogHeader (asc ''Analizando: '' @ url)],
        s_reporter = startTimer (sw_startTime w) (setUrl url newReporter)\<rparr> = Inr s'"
    by blast
  then have "runTests w url categories verbose = Inr (s_log s', endTimer (sw_endTime w) (s_reporter s'))"
    by (simp add: runTests_def Let_def)
  then show ?thesis by blast
qed

text \<open>
  Claim C2. A probe call that throws is caught at the call, one error line is logged for
  it, and the scan goes on with the next probe. For every list of registry keys the scan
  returns a report; its results are exactly the results of the probe calls that returned,
  in category-then-probe order, with no entry for a call that threw; and the error lines
  of the log are the messages of the calls that threw, in order.
\<close>

theorem runTests_probe_failure_isolated:
  assumes "set categories \<subseteq> set (Object_keys TEST_CATEGORIES)"
  shows "\<exists>lg rep. runTests w url categories verbose = Inr (lg, rep) \<and>
     r_results rep = returned (probeOutcomesFrom w url 0 (probeCalls categories)) \<and>
     errorLines lg = map (\<lambda>m. asc ''Error en test: '' @ m)
                (thrown (probeOutcomesFrom w url 0 (probeCalls categories)))"
proof -
  from runTests_total[OF assms] obtain lg rep where
    "runTests w url categories verbose = Inr (lg, rep)"
    by blast
  then show ?thesis using runTests_Inr by blast
qed

theorem runTests_probe_failure_isolated_witness:
  "set [asc ''ssl'', asc ''http''] \<subseteq> set (Object_keys TEST_CATEGORIES) \<and>
   (\<exists>lg rep. runTests ex_scanWorld (asc ''https://example.com'') [asc ''ssl'', asc ''http''] True
        = Inr (lg, rep) \<and>
      r_results rep = [\<lparr>cr_name = asc ''1'', cr_tests = [ex_finding]\<rparr>,
                       \<lparr>cr_name = asc ''2'', cr_tests = [ex_finding]\<rparr>] \<and>
      errorLines lg = [asc ''Error en test: boom''])"
proof -
  have h: "set [asc ''ssl'', asc ''http''] \<subseteq> set (Object_keys TEST_CATEGORIES)"
    by (simp add: Object_keys_def TEST_CATEGORIES_def asc_def)
  have c: "probeCalls [asc ''ssl'', asc ''http''] = [TestSSL, TestHttpResponse, TestRedirects]"
    by (simp add: probeCalls_def getProp_def TEST_CATEGORIES_def asc_def)
  have o: "probeOutcomesFrom ex_scanWorld (asc ''https://example.com'') 0
              [TestSSL, TestHttpResponse, TestRedirects] =
            [Throws (asc ''boom''), Returns \<lparr>cr_name = asc ''1'', cr_tests = [ex_finding]\<rparr>,
             Returns \<lparr>cr_name = asc ''2'', cr_tests = [ex_finding]\<rparr>]"
    by (simp add: probeOutcomesFrom_def ex_scanWorld_def asc_def showNat.simps)
  show ?thesis
    using h runTests_probe_failure_isolated[OF h, of ex_scanWorld "asc ''https://example.com''" True]
    unfolding c o by (simp add: asc_def)
qed

text \<open>
  Claim C1 as stated fails: with \<open>--only ssl,http\<close> the scan runs \<open>ssl\<close> before
  \<open>http\<close>, the order of the filter, while the registry lists \<open>http\<close> first.
\<close>

theorem automaticMode_categories_counterexample:
  "automaticMode_categories \<lparr>o_only = Some (asc ''ssl,http''), o_skip = None, o_quiet = False\<rparr>
     = [asc ''ssl'', asc ''http''] \<and>
   \<not> subseq [asc ''ssl'', asc ''http''] (Object_keys TEST_CATEGORIES)"
  by (simp add: automaticMode_categories_def Object_keys_def TEST_CATEGORIES_def asc_def
      getProp_def)

text \<open>
  Claim C1, amended. Without an \<open>only\<close> filter the selected categories are the
  registry's keys in registry order; with one they are the entries of the filter that the
  registry answers for, in the order the filter lists them, repeated as often as it
  repeats them. \<open>skip\<close> removes the entries it names and reorders nothing. The results of the report follow the selected
  list, category by category and probe by probe.
\<close>

theorem automaticMode_categories_order:
  "subseq (automaticMode_categories opts)
      (if truthyStr (o_only opts) then splitComma (the (o_only opts))
       else Object_keys TEST_CATEGORIES) \<and>
   automaticMode_categories opts =
     filter (\<lambda>c. (truthyStr (o_only opts) \<longrightarrow> truthyProp (getProp TEST_CATEGORIES c)) \<and>
                  \<not> (truthyStr (o_skip opts) \<and> c \<in> set (splitComma (the (o_skip opts)))))
       (if truthyStr (o_only opts) then splitComma (the (o_only opts))
        else Object_keys TEST_CATEGORIES) \<and>
   (\<forall>c. c \<in> set (automaticMode_categories opts) \<longleftrightarrow>
      (if truthyStr (o_only opts)
       then c \<in> set (splitComma (the (o_only opts))) \<and> truthyProp (getProp TEST_CATEGORIES c)
       else c \<in> set (Object_keys TEST_CATEGORIES)) \<and>
      \<not> (truthyStr (o_skip opts) \<and> c \<in> set (splitComma (the (o_skip opts))))) \<and>
   (\<forall>lg rep. automaticMode w url opts = Inr (lg, rep) \<longrightarrow>
      r_results rep =
        returned (probeOutcomesFrom w url 0 (probeCalls (automaticMode_categories opts))))"
proof (intro conjI allI impI)
  show "subseq (automaticMode_categories opts)
      (if truthyStr (o_only opts) then splitComma (the (o_only opts))
       else Object_keys TEST_CATEGORIES)"
    by (auto simp: automaticMode_categories_def Let_def intro: subseq_order.order_trans)
next
  show "automaticMode_categories opts =
     filter (\<lambda>c. (truthyStr (o_only opts) \<longrightarrow> truthyProp (getProp TEST_CATEGORIES c)) \<and>
                  \<not> (truthyStr (o_skip opts) \<and> c \<in> set (splitComma (the (o_skip opts)))))
       (if truthyStr (o_only opts) then splitComma (the (o_only opts))
        else Object_keys TEST_CATEGORIES)"
    by (auto simp: automaticMode_categories_def Let_def intro: filter_cong)
next
  fix c
  show "c \<in> set (automaticMode_categories opts) \<longleftrightarrow>
      (if truthyStr (o_only opts)
       then c \<in> set (splitComma (the (o_only opts))) \<and> truthyProp (getProp TEST_CATEGORIES c)
       else c \<in> set (Object_keys TEST_CATEGORIES)) \<and>
      \<not> (truthyStr (o_skip opts) \<and> c \<in> set (splitComma (the (o_skip opts))))"
    by (auto simp: automaticMode_categories_def Let_def)
next
  fix lg rep
  assume "automaticMode w url opts = Inr (lg, rep)"
  then show "r_results rep =
        returned (probeOutcomesFrom w url 0 (probeCalls (automaticMode_categories opts)))"
    using runTests_Inr by (simp add: automaticMode_def)
qed

theorem automaticMode_categories_order_witness:
  "automaticMode_categories ex_options = [asc ''ssl'', asc ''http''] \<and>
   subseq [asc ''ssl'', asc ''http''] (splitComma (asc ''ssl,http'')) \<and>
   asc ''browser'' \<notin> set (automaticMode_categories ex_options) \<and>
   (\<exists>lg rep. automaticMode ex_scanWorld (asc ''https://example.com'') ex_options = Inr (lg, rep) \<and>
      r_results rep = [\<lparr>cr_name = asc ''1'', cr_tests = [ex_finding]\<rparr>,
                       \<lparr>cr_name = asc ''2'', cr_tests = [ex_finding]\<rparr>])"
proof -
  have a: "automaticMode_categories ex_options = [asc ''ssl'', asc ''http'']"
    by (simp add: automaticMode_categories_def ex_options_def Object_keys_def TEST_CATEGORIES_def
        asc_def getProp_def)
  have h: "set [asc ''ssl'', asc ''http''] \<subseteq> set (Object_keys TEST_CATEGORIES)"
    by (simp add: Object_keys_def TEST_CATEGORIES_def asc_def)
  have c: "probeCalls [asc ''ssl'', asc ''http''] = [TestSSL, TestHttpResponse, TestRedirects]"
    by (simp add: probeCalls_def getProp_def TEST_CATEGORIES_def asc_def)
  have o: "probeOutcomesFrom ex_scanWorld (asc ''https://example.com'') 0
              [TestSSL, TestHttpResponse, TestRedirects] =
            [Throws (asc ''boom''), Returns \<lparr>cr_name = asc ''1'', cr_tests = [ex_finding]\<rparr>,
             Returns \<lparr>cr_name = asc ''2'', cr_tests = [ex_finding]\<rparr>]"
    by (simp add: probeOutcomesFrom_def ex_scanWorld_def asc_def showNat.simps)
  have t: "truthyStr (o_only ex_options) = True" "truthyStr (o_skip ex_options) = True"
    "the (o_only ex_options) = asc ''ssl,http''" "the (o_skip ex_options) = asc ''browser''"
    by (simp_all add: ex_options_def asc_def)
  from runTests_total[OF h] obtain lg rep where
    r: "automaticMode ex_scanWorld (asc ''https://example.com'') ex_options = Inr (lg, rep)"
    unfolding automaticMode_def a by blast
  note inst = automaticMode_categories_order[of ex_options ex_scanWorld "asc ''https://example.com''",
      unfolded a c o t if_True]
  from inst r have res: "r_results rep = [\<lparr>cr_name = asc ''1'', cr_tests = [ex_finding]\<rparr>,
                       \<lparr>cr_name = asc ''2'', cr_tests = [ex_finding]\<rparr>]"
    by simp
  from inst have sub: "subseq [asc ''ssl'', asc ''http''] (splitComma (asc ''ssl,http''))"
    by blast
  from inst have "asc ''browser'' \<in> set [asc ''ssl'', asc ''http''] \<longleftrightarrow>
     (asc ''browser'' \<in> set (splitComma (asc ''ssl,http'')) \<and>
       truthyProp (getProp TEST_CATEGORIES (asc ''browser''))) \<and>
      \<not> (True \<and> asc ''browser'' \<in> set (splitComma (asc ''browser'')))"
    by blast
  then have nb: "asc ''browser'' \<notin> set [asc ''ssl'', asc ''http'']"
    by (simp add: asc_def)
  show ?thesis using a sub nb r res by auto
qed

section \<open>The summary\<close>

lemma fold_tally_passed:
  "sm_passed (fold tally ts sm) =
     sm_passed sm + length (filter (\<lambda>t. f_status t = asc ''pass'') ts)"
  by (induction ts arbitrary: sm) (simp_all add: tally_def Let_def)

lemma fold_category_passed:
  "sm_passed (fold (\<lambda>category sm. fold tally (cr_tests category) sm) cs sm) =
     sm_passed sm + length (filter (\<lambda>t. f_status t = asc ''pass'') (concat (map cr_tests cs)))"
  by (induction cs arbitrary: sm) (simp_all add: fold_tally_passed)

text \<open>
  Claim C9. The \<open>passed\<close> count of the summary is the number of tests, over all
  results of the report, whose status is \<open>pass\<close>; replacing the severities of the
  tests by any others leaves it unchanged.
\<close>

theorem getSummary_passed:
  "sm_passed (getSummary r) = length (filter (\<lambda>t. f_status t = asc ''pass'') (allTests r)) \<and>
   sm_passed (getSummary (r\<lparr>r_results :=
       map (\<lambda>c. c\<lparr>cr_tests := map (\<lambda>t. t\<lparr>f_severity := g t\<rparr>) (cr_tests c)\<rparr>) (r_results r)\<rparr>))
     = sm_passed (getSummary r)"
  by (simp add: getSummary_def allTests_def fold_category_passed filter_concat o_def filter_map length_concat)

section \<open>The recommendation list and the markdown report\<close>

lemma fold_pushRecommendation:
  "fold pushRecommendation ts recs =
     recs @ map (\<lambda>t. \<lparr>rec_severity = f_severity t, rec_name = f_name t,
                       rec_recommendation = the (f_recommendation t)\<rparr>)
                (filter (\<lambda>t. truthyStr (f_recommendation t)) ts)"
  by (induction ts arbitrary: recs) (simp_all add: pushRecommendation_def)

lemma fold_category_recommendations:
  "fold (\<lambda>category recs. fold pushRecommendation (cr_tests category) recs) cs recs =
     recs @ map (\<lambda>t. \<lparr>rec_severity = f_severity t, rec_name = f_name t,
                       rec_recommendation = the (f_recommendation t)\<rparr>)
                (filter (\<lambda>t. truthyStr (f_recommendation t)) (concat (map cr_tests cs)))"
  by (induction cs arbitrary: recs) (simp_all add: fold_pushRecommendation)

lemma collectRecommendations_eq:
  "collectRecommendations r =
     map (\<lambda>t. \<lparr>rec_severity = f_severity t, rec_name = f_name t,
                rec_recommendation = the (f_recommendation t)\<rparr>)
         (filter (\<lambda>t. truthyStr (f_recommendation t)) (allTests r))"
  by (simp add: collectRecommendations_def allTests_def fold_category_recommendations)

lemma mset_insertSorted: "mset (insertSorted cmp x ys) = add_mset x (mset ys)"
  by (induction ys) simp_all

lemma set_insertSorted: "set (insertSorted cmp x ys) = insert x (set ys)"
  by (induction ys) auto

lemma sorted_insertSorted:
  assumes "\<forall>y\<in>set ys. (SortCompare cmp x y < 0) = (key x < key y)"
    and "sorted (map key ys)"
  shows "sorted (map key (insertSorted cmp x ys))"
  using assms
proof (induction ys)
  case Nil
  show ?case by simp
next
  case (Cons y ys)
  show ?case
  proof (cases "SortCompare cmp x y < 0")
    case True
    with Cons.prems show ?thesis by auto
  next
    case False
    with Cons.prems have "key y \<le> key x" by auto
    moreover have "sorted (map key (insertSorted cmp x ys))"
      using Cons by simp
    ultimately show ?thesis using False Cons.prems
      by (auto simp: set_insertSorted)
  qed
qed

lemma filter_insertSorted:
  assumes "\<forall>y\<in>set ys. (SortCompare cmp x y < 0) = (key x < key y)"
    and "sorted (map key ys)"
  shows "filter (\<lambda>z. key z = k) (insertSorted cmp x ys) =
           filter (\<lambda>z. key z = k) ys @ (if key x = k then [x] else [])"
  using assms
proof (induction ys)
  case Nil
  show ?case by simp
next
  case (Cons y ys)
  show ?case
  proof (cases "SortCompare cmp x y < 0")
    case True
    with Cons.prems have lt: "key x < key y" by simp
    from Cons.prems have "\<forall>z\<in>set ys. key y \<le> key z" by simp
    with lt have "\<forall>z\<in>set (y # ys). key z \<noteq> key x" by auto
    then have "key x = k \<Longrightarrow> filter (\<lambda>z. key z = k) (y # ys) = []"
      by (auto simp: filter_empty_conv)
    with True show ?thesis by auto
  next
    case False
    with Cons show ?thesis by simp
  qed
qed

lemma fold_insertSorted:
  assumes "\<forall>x\<in>set xs \<union> set acc. \<forall>y\<in>set xs \<union> set acc.
             (SortCompare cmp x y < 0) = (key x < key y)"
    and "sorted (map key acc)"
  shows "sorted (map key (fold (insertSorted cmp) xs acc)) \<and>
         (\<forall>k. filter (\<lambda>z. key z = k) (fold (insertSorted cmp) xs acc) =
               filter (\<lambda>z. key z = k) acc @ filter (\<lambda>z. key z = k) xs)"
  using assms
proof (induction xs arbitrary: acc)
  case Nil
  then show ?case by simp
next
  case (Cons x xs)
  have c: "\<forall>y\<in>set acc. (SortCompare cmp x y < 0) = (key x < key y)"
    using Cons.prems(1) by simp
  have s: "sorted (map key (insertSorted cmp x acc))"
    using sorted_insertSorted[OF c Cons.prems(2)] .
  have a: "\<forall>a\<in>set xs \<union> set (insertSorted cmp x acc). \<forall>b\<in>set xs \<union> set (insertSorted cmp x acc).
             (SortCompare cmp a b < 0) = (key a < key b)"
    using Cons.prems(1) by (auto simp: set_insertSorted)
  from Cons.IH[OF a s] filter_insertSorted[OF c Cons.prems(2)]
  show ?case by simp
qed

lemma mset_fold_insertSorted:
  "mset (fold (insertSorted cmp) xs acc) = mset xs + mset acc"
  by (induction xs arbitrary: acc) (simp_all add: mset_insertSorted)

lemma SortCompare_compareSeverity:
  assumes "severityRank (rec_severity a) \<noteq> None" "severityRank (rec_severity b) \<noteq> None"
  shows "(SortCompare compareSeverity a b < 0) =
           (the (severityRank (rec_severity a)) < the (severityRank (rec_severity b)))"
  using assms by (auto simp: SortCompare_def compareSeverity_def)

lemma severityRank_known:
  "severityRank (Some (asc ''critical'')) = Some 0"
  "severityRank (Some (asc ''high'')) = Some 1"
  "severityRank (Some (asc ''medium'')) = Some 2"
  "severityRank (Some (asc ''low'')) = Some 3"
  "severityRank (Some (asc ''info'')) = Some 4"
  "severityRank None = None"
  by (simp_all add: severityRank_def getProp_def severityOrder_def asc_def)

lemma asc_nonempty: "asc (c # cs) \<noteq> []"
  by (simp add: asc_def)

text \<open>
  Claim C7 as stated fails twice on one report: the test \<open>C\<close>, whose recommendation is
  the empty string and so not null, is left out; and the test \<open>A\<close>, which has no
  severity, stays in front of the critical test \<open>B\<close>, since the comparator gives NaN
  for it.
\<close>

theorem recommendations_counterexample:
  "recommendations ex_unranked =
     [\<lparr>rec_severity = None, rec_name = asc ''A'', rec_recommendation = asc ''fix A''\<rparr>,
      \<lparr>rec_severity = Some (asc ''critical''), rec_name = asc ''B'',
        rec_recommendation = asc ''fix B''\<rparr>]"
  by (simp add: recommendations_def collectRecommendations_eq allTests_def ex_unranked_def
      ex_reporter_def ex_rec_finding_def Array_sort_def SortCompare_def compareSeverity_def
      severityRank_known asc_nonempty)

text \<open>
  Claim C7, amended. The recommendation list holds exactly the tests whose recommendation
  is truthy (neither null nor empty), each once. When each of them has one of the five
  severities of the table, the list is sorted by rank (critical, high, medium, low, info)
  and the tests of one rank keep the order they have in the report.
\<close>

theorem recommendations_stable_sorted:
  "mset (recommendations r) =
     mset (map (\<lambda>t. \<lparr>rec_severity = f_severity t, rec_name = f_name t,
                      rec_recommendation = the (f_recommendation t)\<rparr>)
               (filter (\<lambda>t. truthyStr (f_recommendation t)) (allTests r))) \<and>
   ((\<forall>t\<in>set (allTests r). truthyStr (f_recommendation t) \<longrightarrow> severityRank (f_severity t) \<noteq> None)
    \<longrightarrow>
      sorted (map (\<lambda>x. the (severityRank (rec_severity x))) (recommendations r)) \<and>
      (\<forall>k. filter (\<lambda>x. the (severityRank (rec_severity x)) = k) (recommendations r) =
            filter (\<lambda>x. the (severityRank (rec_severity x)) = k)
              (map (\<lambda>t. \<lparr>rec_severity = f_severity t, rec_name = f_name t,
                           rec_recommendation = the (f_recommendation t)\<rparr>)
                   (filter (\<lambda>t. truthyStr (f_recommendation t)) (allTests r))))) \<and>
   map severityRank [Some (asc ''critical''), Some (asc ''high''), Some (asc ''medium''),
                     Some (asc ''low''), Some (asc ''info'')] =
     [Some 0, Some 1, Some 2, Some 3, Some 4]"
proof -
  have m: "mset (recommendations r) =
     mset (map (\<lambda>t. \<lparr>rec_severity = f_severity t, rec_name = f_name t,
                      rec_recommendation = the (f_recommendation t)\<rparr>)
               (filter (\<lambda>t. truthyStr (f_recommendation t)) (allTests r)))"
    by (simp add: recommendations_def Array_sort_def mset_fold_insertSorted
        collectRecommendations_eq)
  have s: "sorted (map (\<lambda>x. the (severityRank (rec_severity x))) (recommendations r)) \<and>
      (\<forall>k. filter (\<lambda>x. the (severityRank (rec_severity x)) = k) (recommendations r) =
            filter (\<lambda>x. the (severityRank (rec_severity x)) = k)
              (map (\<lambda>t. \<lparr>rec_severity = f_severity t, rec_name = f_name t,
                           rec_recommendation = the (f_recommendation t)\<rparr>)
                   (filter (\<lambda>t. truthyStr (f_recommendation t)) (allTests r))))"
    if known: "\<forall>t\<in>set (allTests r). truthyStr (f_recommendation t) \<longrightarrow>
                   severityRank (f_severity t) \<noteq> None"
  proof -
    have "\<forall>x\<in>set (collectRecommendations r). severityRank (rec_severity x) \<noteq> None"
      using known by (auto simp: collectRecommendations_eq)
    then have cons: "\<forall>x\<in>set (collectRecommendations r) \<union> set [].
       \<forall>y\<in>set (collectRecommendations r) \<union> set [].
       (SortCompare compareSeverity x y < 0) =
         (the (severityRank (rec_severity x)) < the (severityRank (rec_severity y)))"
      by (simp add: SortCompare_compareSeverity)
    have "sorted (map (\<lambda>x. the (severityRank (rec_severity x))) [])" by simp
    from fold_insertSorted[OF cons this] show ?thesis
      by (simp add: recommendations_def Array_sort_def collectRecommendations_eq)
  qed
  have r: "map severityRank [Some (asc ''critical''), Some (asc ''high''), Some (asc ''medium''),
                     Some (asc ''low''), Some (asc ''info'')] =
     [Some 0, Some 1, Some 2, Some 3, Some 4]"
    by (simp add: severityRank_known)
  from m s r show ?thesis by blast
qed

theorem recommendations_stable_sorted_witness:
  "map (\<lambda>t. severityRank (f_severity t))
       (filter (\<lambda>t. truthyStr (f_recommendation t)) (allTests ex_ranked)) =
     [Some 3, Some 0, Some 3] \<and>
   sorted (map (\<lambda>x. the (severityRank (rec_severity x))) (recommendations ex_ranked)) \<and>
   map rec_name (recommendations ex_ranked) = [asc ''B'', asc ''A'', asc ''D'']"
proof -
  have h: "\<forall>t\<in>set (allTests ex_ranked). truthyStr (f_recommendation t) \<longrightarrow>
       severityRank (f_severity t) \<noteq> None"
    by (simp add: allTests_def ex_ranked_def ex_reporter_def ex_rec_finding_def severityRank_known)
  have e: "map rec_name (recommendations ex_ranked) = [asc ''B'', asc ''A'', asc ''D'']"
    by (simp add: recommendations_def collectRecommendations_eq allTests_def ex_ranked_def
      ex_reporter_def ex_rec_finding_def Array_sort_def SortCompare_def compareSeverity_def
      severityRank_known asc_nonempty)
  have k: "map (\<lambda>t. severityRank (f_severity t))
       (filter (\<lambda>t. truthyStr (f_recommendation t)) (allTests ex_ranked)) =
     [Some 3, Some 0, Some 3]"
    by (simp add: allTests_def ex_ranked_def ex_reporter_def ex_rec_finding_def severityRank_known
        asc_nonempty)
  from recommendations_stable_sorted[of ex_ranked] h e k show ?thesis by blast
qed

lemma detailRow_now: "detailRow (env\<lparr>re_now := t\<rparr>) = detailRow env"
  by (simp add: fun_eq_iff detailRow_def getStatusEmoji_def emojiOr_def split: property.split)

lemma detailSection_now: "detailSection (env\<lparr>re_now := t\<rparr>) r = detailSection env r"
  by (simp add: detailSection_def detailRow_now)

lemma recommendationLine_now: "recommendationLine (env\<lparr>re_now := t\<rparr>) = recommendationLine env"
  by (simp add: fun_eq_iff recommendationLine_def getSeverityEmoji_def emojiOr_def
      split: property.split option.split)

lemma recommendationSection_now:
  "recommendationSection (env\<lparr>re_now := t\<rparr>) r = recommendationSection env r"
  by (simp add: recommendationSection_def recommendationLine_now)

lemma generateLinearReport_date_cancel:
  "(generateLinearReport (env\<lparr>re_now := ta\<rparr>) r = generateLinearReport (env\<lparr>re_now := tb\<rparr>) r)
     = (ta = tb)"
  by (simp add: generateLinearReport_def Let_def detailSection_now recommendationSection_now
      split: option.split)

text \<open>
  Claim C8, amended. The markdown report prints the date read at the call. Two renderings
  of one report are identical exactly when the date text is the same at both calls; no
  other part of the output depends on the moment of the call.
\<close>

theorem generateLinearReport_same_iff_same_date:
  assumes "re_toFixed1 e1 = re_toFixed1 e2" and "re_inherited e1 = re_inherited e2"
  shows "(generateLinearReport e1 r = generateLinearReport e2 r) = (re_now e1 = re_now e2)"
proof -
  have "e1 = e2\<lparr>re_now := re_now e1\<rparr>" using assms by simp
  moreover have "e2 = e2\<lparr>re_now := re_now e2\<rparr>" by simp
  ultimately show ?thesis using generateLinearReport_date_cancel[where env = e2 and ta = "re_now e1" and r = r and tb = "re_now e2"]
    by simp
qed

text \<open>
  Claim C8 as stated fails: rendering the same finished report at two moments one second
  apart gives two different texts.
\<close>

theorem generateLinearReport_counterexample:
  "generateLinearReport (ex_renderEnv (asc ''1/1/2026, 10:00:00'')) ex_ranked \<noteq>
   generateLinearReport (ex_renderEnv (asc ''1/1/2026, 10:00:01'')) ex_ranked"
proof -
  have "ex_renderEnv (asc ''1/1/2026, 10:00:00'') = (ex_renderEnv [])\<lparr>re_now := asc ''1/1/2026, 10:00:00''\<rparr>"
     "ex_renderEnv (asc ''1/1/2026, 10:00:01'') = (ex_renderEnv [])\<lparr>re_now := asc ''1/1/2026, 10:00:01''\<rparr>"
    by (simp_all add: ex_renderEnv_def)
  moreover have "asc ''1/1/2026, 10:00:00'' \<noteq> asc ''1/1/2026, 10:00:01''"
    by (simp add: asc_def)
  ultimately show ?thesis
    by (simp only: generateLinearReport_date_cancel not_False_eq_True)
qed

theorem generateLinearReport_same_iff_same_date_witness:
  "re_toFixed1 (ex_renderEnv (asc ''10:00:00'')) = re_toFixed1 (ex_renderEnv (asc ''10:00:00'')) \<and>
   re_inherited (ex_renderEnv (asc ''10:00:00'')) = re_inherited (ex_renderEnv (asc ''10:00:00'')) \<and>
   generateLinearReport (ex_renderEnv (asc ''10:00:00'')) ex_ranked =
     generateLinearReport (ex_renderEnv (asc ''10:00:00'')) ex_ranked"
  using generateLinearReport_same_iff_same_date[of "ex_renderEnv (asc ''10:00:00'')"
      "ex_renderEnv (asc ''10:00:00'')" ex_ranked]
  by simp

section \<open>The monitor: loading configuration and state\<close>

text \<open>
  Claim C10. When the configuration file or the state file is missing, cannot be read or
  cannot be parsed, the error stays inside the loader and the monitor is built with the
  built-in defaults: no URLs, the default assignee, thresholds of 5000 ms and 14 days;
  no last check, an empty alert ledger and an empty history.
\<close>

theorem loaders_fall_back_to_defaults:
  "((configFile = Missing \<or> configFile = Unreadable \<or>
      (\<exists>t. configFile = Content t \<and> parseConfig t = None)) \<longrightarrow>
      m_config (newMonitor parseConfig configFile parseState stateFile parseLinear linearFile)
        = defaultConfig) \<and>
   ((stateFile = Missing \<or> stateFile = Unreadable \<or>
      (\<exists>t. stateFile = Content t \<and> parseState t = None)) \<longrightarrow>
      m_state (newMonitor parseConfig configFile parseState stateFile parseLinear linearFile)
        = defaultState) \<and>
   mc_urls defaultConfig = [] \<and> mc_assigneeId defaultConfig = DEFAULT_ASSIGNEE \<and>
   th_responseTime (mc_thresholds defaultConfig) = 5000 \<and>
   th_sslExpiryDays (mc_thresholds defaultConfig) = 14 \<and>
   ms_lastCheck defaultState = None \<and> ms_alerts defaultState = [] \<and>
   ms_history defaultState = []"
  by (auto simp: newMonitor_def loadConfig_def loadState_def readJSON_def defaultConfig_def
      defaultState_def)

theorem loaders_fall_back_to_defaults_witness:
  "m_config (newMonitor (\<lambda>t. None) (Content (asc ''{broken'')) (\<lambda>t. None) Missing
              (\<lambda>t. None) Unreadable) = defaultConfig \<and>
   m_state (newMonitor (\<lambda>t. None) (Content (asc ''{broken'')) (\<lambda>t. None) Missing
              (\<lambda>t. None) Unreadable) = defaultState"
  using loaders_fall_back_to_defaults[of "Content (asc ''{broken'')" "\<lambda>t. None" "\<lambda>t. None" Missing
      "\<lambda>t. None" Unreadable]
  by simp

section \<open>The monitor: one URL\<close>

lemma overallStatus_rule:
  "overallStatus issues =
     (if \<exists>i\<in>set issues. i_type i = asc ''critical'' then asc ''critical''
      else if issues \<noteq> [] then asc ''warning'' else asc ''ok'')"
  by (auto simp: overallStatus_def list_ex_iff)

lemma sslCheck_keeps:
  "\<exists>checks' more. sslCheck cfg hostname uw url (checks, issues) = (checks', issues @ more)"
  by (auto simp: sslCheck_def Let_def split: sslOutcome.split daysValue.split option.split)

lemma checkUrl_Inr:
  "checkUrl cfg hostname uw url = Inr res \<Longrightarrow>
     res_status res = overallStatus (res_issues res) \<and> res_url res = url"
  by (auto simp: checkUrl_def split: sum.splits prod.splits)

text \<open>
  Claim C4. For a URL that parses and whose response has a status of 500 or more, the
  HTTP status check yields exactly one critical issue, of priority 1, and the status of
  the result is \<open>critical\<close>. For every result, the status is \<open>critical\<close> when some
  issue is critical, else \<open>warning\<close> when there is an issue, else \<open>ok\<close>.
\<close>

theorem checkUrl_server_error:
  "((ck_httpStatus (mc_checks cfg) \<and> uw_http uw = Response status responseTime \<and> 500 \<le> status \<and>
     hostname url = Some host) \<longrightarrow>
     (\<exists>checks issues res critical more.
        httpStatusCheck cfg hostname uw url = Inr (checks, issues) \<and>
        filter (\<lambda>i. i_type i = asc ''critical'') issues = [critical] \<and>
        i_priority critical = 1 \<and>
        i_title critical = [0xD83D, 0xDD34] @ asc '' ERROR '' @ showInt status @ asc '' en '' @ host \<and>
        checkUrl cfg hostname uw url = Inr res \<and>
        res_issues res = issues @ more \<and>
        res_status res = asc ''critical'')) \<and>
   (\<forall>res. checkUrl cfg hostname uw url = Inr res \<longrightarrow>
      res_status res =
        (if \<exists>i\<in>set (res_issues res). i_type i = asc ''critical'' then asc ''critical''
         else if res_issues res \<noteq> [] then asc ''warning'' else asc ''ok''))"
proof (intro conjI impI allI)
  assume a: "ck_httpStatus (mc_checks cfg) \<and> uw_http uw = Response status responseTime \<and>
     500 \<le> status \<and> hostname url = Some host"
  define critical where "critical =
     \<lparr>i_type = asc ''critical'',
      i_title = [0xD83D, 0xDD34] @ asc '' ERROR '' @ showInt status @ asc '' en '' @ host,
      i_description = asc ''El servidor respondi'' @ [0xF3] @ asc '' con error '' @
         showInt status @ asc ''.'' @ [0xA, 0xA] @ asc ''URL: '' @ url @
         [0xA] @ asc ''Tiempo: '' @ uw_localeTime uw 0,
      i_priority = 1\<rparr>"
  have ne: "asc ''warning'' \<noteq> asc ''critical''" by (simp add: asc_def)
  from a obtain checks issues where
    h: "httpStatusCheck cfg hostname uw url = Inr (checks, issues)" and
    f: "filter (\<lambda>i. i_type i = asc ''critical'') issues = [critical]"
    by (auto simp: httpStatusCheck_def httpStatusTry_def Let_def critical_def ne)
  obtain checks' more where s: "sslCheck cfg hostname uw url (checks, issues) = (checks', issues @ more)"
    using sslCheck_keeps by blast
  define res where "res = \<lparr>res_url = url, res_timestamp = uw_timestamp uw,
        res_status = overallStatus (issues @ more), res_checks = checks',
        res_issues = issues @ more\<rparr>"
  have c: "checkUrl cfg hostname uw url = Inr res"
    by (simp add: checkUrl_def h s res_def)
  have "critical \<in> set (filter (\<lambda>i. i_type i = asc ''critical'') issues)"
    unfolding f by simp
  then have "critical \<in> set issues" by simp
  moreover from f have "i_type critical = asc ''critical''"
    by (simp add: critical_def)
  ultimately have "overallStatus (issues @ more) = asc ''critical''"
    by (auto simp: overallStatus_rule)
  then have "res_status res = asc ''critical''" by (simp add: res_def)
  moreover have "res_issues res = issues @ more" by (simp add: res_def)
  moreover have "i_priority critical = 1"
    "i_title critical = [0xD83D, 0xDD34] @ asc '' ERROR '' @ showInt status @ asc '' en '' @ host"
    by (simp_all add: critical_def)
  ultimately show "\<exists>checks issues res critical more.
        httpStatusCheck cfg hostname uw url = Inr (checks, issues) \<and>
        filter (\<lambda>i. i_type i = asc ''critical'') issues = [critical] \<and>
        i_priority critical = 1 \<and>
        i_title critical = [0xD83D, 0xDD34] @ asc '' ERROR '' @ showInt status @ asc '' en '' @ host \<and>
        checkUrl cfg hostname uw url = Inr res \<and>
        res_issues res = issues @ more \<and>
        res_status res = asc ''critical''"
    using h f c by blast
next
  fix res
  assume "checkUrl cfg hostname uw url = Inr res"
  then show "res_status res =
        (if \<exists>i\<in>set (res_issues res). i_type i = asc ''critical'' then asc ''critical''
         else if res_issues res \<noteq> [] then asc ''warning'' else asc ''ok'')"
    using checkUrl_Inr overallStatus_rule by simp
qed

theorem checkUrl_server_error_witness:
  "ck_httpStatus (mc_checks ex_config) \<and>
   uw_http (ex_urlWorld (Response 503 120) 0) = Response 503 120 \<and>
   ex_hostname (asc ''https://example.com'') = Some (asc ''example.com'') \<and>
   (\<exists>checks issues res critical more.
        httpStatusCheck ex_config ex_hostname (ex_urlWorld (Response 503 120) 0)
          (asc ''https://example.com'') = Inr (checks, issues) \<and>
        filter (\<lambda>i. i_type i = asc ''critical'') issues = [critical] \<and>
        i_priority critical = 1 \<and>
        i_title critical = [0xD83D, 0xDD34] @ asc '' ERROR 503 en example.com'' \<and>
        checkUrl ex_config ex_hostname (ex_urlWorld (Response 503 120) 0)
          (asc ''https://example.com'') = Inr res \<and>
        res_issues res = issues @ more \<and>
        res_status res = asc ''critical'')"
proof -
  have a: "ck_httpStatus (mc_checks ex_config)"
    by (simp add: ex_config_def defaultConfig_def)
  have b: "uw_http (ex_urlWorld (Response 503 120) 0) = Response 503 120"
    by (simp add: ex_urlWorld_def)
  have c: "ex_hostname (asc ''https://example.com'') = Some (asc ''example.com'')"
    by (simp add: ex_hostname_def asc_def)
  have d: "asc '' ERROR '' @ showInt 503 @ asc '' en '' @ asc ''example.com''
             = asc '' ERROR 503 en example.com''"
    by (simp add: showInt_def asc_def showNat.simps)
  from checkUrl_server_error[where cfg = ex_config and uw = "ex_urlWorld (Response 503 120) 0"
      and status = 503 and responseTime = 120 and hostname = ex_hostname
      and url = "asc ''https://example.com''" and host = "asc ''example.com''"] a b c
  show ?thesis by (simp add: d)
qed

section \<open>The monitor: deduplication of alerts\<close>


lemma checkNewIssues_single:
  "checkNewIssues uw url n [issue] (alerts, newIssues) =
     (if notNumber (map_of alerts (alertKeyOf url issue)) \<or>
         uw_now uw n - the (map_of alerts (alertKeyOf url issue)) > 4 * 60 * 60 * 1000
      then (AList.update (alertKeyOf url issue) (uw_now uw n) alerts,
            newIssues @ [withUrl issue url])
      else (alerts, newIssues))"
  by (simp add: Let_def)

lemma notNumber_iff: "notNumber v \<longleftrightarrow> v = None \<or> v = Some 0"
  by (cases v) auto

section \<open>The monitor: history\<close>

lemma runChecks_unfold:
  "runChecks cfg w verbose state =
     (case checkUrls cfg w verbose 0 (mc_urls cfg) (startCycle cfg verbose state) of
        Inl e \<Rightarrow> Inl e
      | Inr c \<Rightarrow>
          if cw_writeOk w
          then Inr \<lparr>run_state =
                      \<lparr>ms_lastCheck = Some (cw_lastCheck w), ms_alerts = cy_alerts c,
                       ms_history =
                         drop (length (ms_history state) + 1 - 100)
                           (ms_history state @ [historyEntryOf (cw_lastCheck w) (cy_results c)])\<rparr>,
                    run_results = cy_results c, run_newIssues = cy_newIssues c,
                    run_log = cy_log c\<rparr>
          else Inl IOError)"
  by (simp add: runChecks_def Let_def split: sum.split)

lemma runChecks_Inr:
  assumes "runChecks cfg w verbose state = Inr run"
  shows "\<exists>c. checkUrls cfg w verbose 0 (mc_urls cfg) (startCycle cfg verbose state) = Inr c \<and>
         run_results run = cy_results c \<and> run_newIssues run = cy_newIssues c \<and>
         ms_alerts (run_state run) = cy_alerts c \<and>
         ms_lastCheck (run_state run) = Some (cw_lastCheck w) \<and>
         ms_history (run_state run) =
           drop (length (ms_history state) + 1 - 100)
             (ms_history state @ [historyEntryOf (cw_lastCheck w) (cy_results c)])"
proof (cases "checkUrls cfg w verbose 0 (mc_urls cfg) (startCycle cfg verbose state)")
  case (Inl e)
  with assms show ?thesis by (simp add: runChecks_unfold)
next
  case (Inr c)
  with assms have "cw_writeOk w"
    by (simp add: runChecks_unfold split: if_splits)
  with assms Inr show ?thesis
    by (auto simp add: runChecks_unfold)
qed

lemma runChecks_history:
  assumes "runChecks cfg w verbose state = Inr run"
  shows "ms_history (run_state run) =
           drop (length (ms_history state) + 1 - 100)
             (ms_history state @ [historyEntryOf (cw_lastCheck w) (run_results run)])"
    and "length (ms_history (run_state run)) = min 100 (length (ms_history state) + 1)"
    and "last (ms_history (run_state run)) = historyEntryOf (cw_lastCheck w) (run_results run)"
proof -
  from runChecks_Inr[OF assms] show h: "ms_history (run_state run) =
           drop (length (ms_history state) + 1 - 100)
             (ms_history state @ [historyEntryOf (cw_lastCheck w) (run_results run)])"
    by auto
  show "length (ms_history (run_state run)) = min 100 (length (ms_history state) + 1)"
    unfolding h by simp
  have "length (ms_history state) + 1 - 100
          < length (ms_history state @ [historyEntryOf (cw_lastCheck w) (run_results run)])"
    by simp
  then show "last (ms_history (run_state run)) = historyEntryOf (cw_lastCheck w) (run_results run)"
    unfolding h by (simp only: last_drop last_snoc)
qed

lemma runCycles_history_length:
  "runCycles cfg verbose ws state = Inr state' \<Longrightarrow> ws \<noteq> [] \<Longrightarrow>
     length (ms_history state') = min 100 (length (ms_history state) + length ws)"
proof (induction ws arbitrary: state)
  case Nil
  then show ?case by simp
next
  case (Cons w ws)
  from Cons.prems(1) obtain run where
    r: "runChecks cfg w verbose state = Inr run" and
    c: "runCycles cfg verbose ws (run_state run) = Inr state'"
    by (auto split: sum.splits)
  note l = runChecks_history(2)[OF r]
  show ?case
  proof (cases "ws = []")
    case True
    with c l show ?thesis by simp
  next
    case False
    from Cons.IH[OF c False] l show ?thesis by simp
  qed
qed

lemma httpStatusCheck_total:
  "hostname url \<noteq> None \<Longrightarrow> \<exists>r. httpStatusCheck cfg hostname uw url = Inr r"
  by (auto simp: httpStatusCheck_def httpStatusTry_def httpStatusCatch_def Let_def
      split: httpOutcome.split)

lemma checkUrl_total:
  "hostname url \<noteq> None \<Longrightarrow> \<exists>res. checkUrl cfg hostname uw url = Inr res"
  using httpStatusCheck_total[of hostname url cfg uw]
  by (auto simp: checkUrl_def split: prod.splits)

lemma checkUrls_total:
  "\<forall>url\<in>set urls. cw_hostname w url \<noteq> None \<Longrightarrow> \<exists>c'. checkUrls cfg w verbose n urls c = Inr c'"
proof (induction urls arbitrary: n c)
  case Nil
  show ?case by simp
next
  case (Cons url urls)
  then obtain res where res: "checkUrl cfg (cw_hostname w) (cw_visit w n) url = Inr res"
    using checkUrl_total[of "cw_hostname w" url cfg "cw_visit w n"] by auto
  have ih: "\<And>n c. \<exists>c'. checkUrls cfg w verbose n urls c = Inr c'"
    using Cons by simp
  obtain alerts newIssues where k: "checkNewIssues (cw_visit w n) url 0 (res_issues res)
       (cy_alerts c, cy_newIssues c) = (alerts, newIssues)"
    by (cases "checkNewIssues (cw_visit w n) url 0 (res_issues res) (cy_alerts c, cy_newIssues c)")
  show ?case by (simp add: Let_def res k ih)
qed

lemma runChecks_total:
  assumes "\<forall>url\<in>set (mc_urls cfg). cw_hostname w url \<noteq> None" and "cw_writeOk w"
  shows "\<exists>run. runChecks cfg w verbose state = Inr run"
proof -
  from checkUrls_total[OF assms(1)] obtain c where
    "checkUrls cfg w verbose 0 (mc_urls cfg) (startCycle cfg verbose state) = Inr c"
    by blast
  with assms(2) show ?thesis by (simp add: runChecks_unfold)
qed

lemma runCycles_total:
  "\<forall>w\<in>set ws. (\<forall>url\<in>set (mc_urls cfg). cw_hostname w url \<noteq> None) \<and> cw_writeOk w \<Longrightarrow>
     \<exists>state'. runCycles cfg verbose ws state = Inr state'"
proof (induction ws arbitrary: state)
  case Nil
  show ?case by simp
next
  case (Cons w ws)
  then obtain run where "runChecks cfg w verbose state = Inr run"
    using runChecks_total[of cfg w verbose state] by auto
  then show ?case using Cons by simp
qed

text \<open>
  Claim C5. After a cycle the history has at most 100 entries: the previous entries
  followed by the entry of this cycle, cut to the last 100, so that this cycle's entry is
  last and the order is that of the cycles. After \<open>n\<close> cycles, one at least, it has
  100 entries or the initial number plus \<open>n\<close>, whichever is less; after 150 cycles
  exactly 100.
\<close>

theorem history_bounded:
  "(\<forall>run. runChecks cfg w verbose state = Inr run \<longrightarrow>
      length (ms_history (run_state run)) \<le> 100 \<and>
      ms_history (run_state run) =
        drop (length (ms_history state) + 1 - 100)
          (ms_history state @ [historyEntryOf (cw_lastCheck w) (run_results run)]) \<and>
      last (ms_history (run_state run)) = historyEntryOf (cw_lastCheck w) (run_results run)) \<and>
   (\<forall>state'. runCycles cfg verbose ws state = Inr state' \<and> ws \<noteq> [] \<longrightarrow>
      length (ms_history state') = min 100 (length (ms_history state) + length ws)) \<and>
   (\<forall>state'. runCycles cfg verbose ws state = Inr state' \<and> length ws = 150 \<longrightarrow>
      length (ms_history state') = 100)"
proof (intro conjI allI impI)
  fix run
  assume r: "runChecks cfg w verbose state = Inr run"
  from runChecks_history(2)[OF r] show "length (ms_history (run_state run)) \<le> 100" by simp
  from runChecks_history(1)[OF r] show "ms_history (run_state run) =
        drop (length (ms_history state) + 1 - 100)
          (ms_history state @ [historyEntryOf (cw_lastCheck w) (run_results run)])" .
  from runChecks_history(3)[OF r]
  show "last (ms_history (run_state run)) = historyEntryOf (cw_lastCheck w) (run_results run)" .
next
  fix state'
  assume "runCycles cfg verbose ws state = Inr state' \<and> ws \<noteq> []"
  then show "length (ms_history state') = min 100 (length (ms_history state) + length ws)"
    using runCycles_history_length by blast
next
  fix state'
  assume a: "runCycles cfg verbose ws state = Inr state' \<and> length ws = 150"
  then have "ws \<noteq> []" by auto
  with a runCycles_history_length[of cfg verbose ws state state'] show "length (ms_history state') = 100"
    by simp
qed

lemma ex_hostname_ok: "\<forall>url\<in>set (mc_urls ex_config). cw_hostname (ex_cycleWorld now) url \<noteq> None"
  by (simp add: ex_config_def ex_cycleWorld_def ex_hostname_def asc_def)

lemma ex_writeOk: "cw_writeOk (ex_cycleWorld now)"
  by (simp add: ex_cycleWorld_def)

theorem history_bounded_witness:
  "(\<exists>run. runChecks ex_config (ex_cycleWorld 0) False defaultState = Inr run \<and>
      length (ms_history (run_state run)) \<le> 100 \<and>
      last (ms_history (run_state run)) =
        historyEntryOf (cw_lastCheck (ex_cycleWorld 0)) (run_results run)) \<and>
   (\<exists>state'. runCycles ex_config False (replicate 150 (ex_cycleWorld 0)) defaultState = Inr state' \<and>
      length (ms_history state') = 100)"
proof -
  from runChecks_total[OF ex_hostname_ok ex_writeOk] obtain run where
    r: "runChecks ex_config (ex_cycleWorld 0) False defaultState = Inr run"
    by blast
  have "\<forall>w\<in>set (replicate 150 (ex_cycleWorld 0)).
          (\<forall>url\<in>set (mc_urls ex_config). cw_hostname w url \<noteq> None) \<and> cw_writeOk w"
    using ex_hostname_ok ex_writeOk by simp
  from runCycles_total[OF this] obtain state' where
    c: "runCycles ex_config False (replicate 150 (ex_cycleWorld 0)) defaultState = Inr state'"
    by blast
  have l: "length (replicate 150 (ex_cycleWorld 0)) = 150" by simp
  note h = history_bounded[where cfg = ex_config and w = "ex_cycleWorld 0" and verbose = False
      and state = defaultState and ws = "replicate 150 (ex_cycleWorld 0)"]
  from h r have "length (ms_history (run_state run)) \<le> 100 \<and>
      last (ms_history (run_state run)) =
        historyEntryOf (cw_lastCheck (ex_cycleWorld 0)) (run_results run)"
    by blast
  moreover from h c l have "length (ms_history state') = 100" by blast
  ultimately show ?thesis using r c by blast
qed

section \<open>The monitor: dispatch\<close>

lemma dispatchOutcomes_Cons:
  "dispatchOutcomes cfg dispatch n (issue # rest) =
     dispatch n (issueCreateInputOf cfg issue) # dispatchOutcomes cfg dispatch (Suc n) rest"
  by (simp add: dispatchOutcomes_def)

lemma dispatchIssues_effect:
  "dispatchIssues cfg dispatch verbose n issues (created, lg) =
     (created @ createdOf (dispatchOutcomes cfg dispatch n issues),
      lg @ (if verbose then dispatchLog (dispatchOutcomes cfg dispatch n issues) else []))"
proof (induction issues arbitrary: n created lg)
  case Nil
  show ?case by (simp add: dispatchOutcomes_def)
next
  case (Cons issue rest)
  show ?case
    by (cases "dispatch n (issueCreateInputOf cfg issue)")
       (simp_all add: dispatchOutcomes_Cons Cons.IH)
qed

lemma sendAlerts_configured:
  assumes "truthyStr (mc_teamId cfg)" and "isConfigured linear"
  shows "sendAlerts cfg linear dispatch verbose issues =
     (createdOf (dispatchOutcomes cfg dispatch 0 issues),
      if verbose then dispatchLog (dispatchOutcomes cfg dispatch 0 issues) else [])"
  using assms by (simp add: sendAlerts_def dispatchIssues_effect)

lemma monitor_after_runChecks:
  assumes "runChecks cfg w verbose state = Inr run"
  shows "\<exists>m. monitor cfg linear w dispatch verbose state = Inr m \<and>
             mo_state m = run_state run \<and> mo_results m = run_results run"
  using assms by (simp add: monitor_def Let_def split: prod.split)

lemma alertKeyOf_withUrl: "alertKeyOf url (withUrl issue url) = alertKeyOf url issue"
  by (simp add: alertKeyOf_def withUrl_def)

lemma ni_url_withUrl: "ni_url (withUrl issue url) = url"
  by (simp add: withUrl_def)

lemma checkNewIssues_ledger:
  assumes "\<forall>i\<in>set newIssues. \<exists>t\<in>T. map_of alerts (alertKeyOf (ni_url i) i) = Some t"
    and "range (uw_now uw) \<subseteq> T"
  shows "case checkNewIssues uw url n issues (alerts, newIssues) of
           (alerts', newIssues') \<Rightarrow>
             \<forall>i\<in>set newIssues'. \<exists>t\<in>T. map_of alerts' (alertKeyOf (ni_url i) i) = Some t"
  using assms(1)
proof (induction issues arbitrary: n alerts newIssues)
  case Nil
  then show ?case by simp
next
  case (Cons issue rest)
  show ?case
  proof (cases "notNumber (map_of alerts (alertKeyOf url issue)) \<or>
         uw_now uw n - the (map_of alerts (alertKeyOf url issue)) > 4 * 60 * 60 * 1000")
    case False
    then show ?thesis using Cons.IH[OF Cons.prems] by (simp add: Let_def)
  next
    case True
    have now: "uw_now uw n \<in> T" using assms(2) by auto
    have "\<forall>i\<in>set (newIssues @ [withUrl issue url]). \<exists>t\<in>T.
            map_of (AList.update (alertKeyOf url issue) (uw_now uw n) alerts)
              (alertKeyOf (ni_url i) i) = Some t"
      using Cons.prems now
      by (auto simp: update_conv' alertKeyOf_withUrl ni_url_withUrl)
    from Cons.IH[OF this] True show ?thesis by (simp add: Let_def)
  qed
qed

lemma checkUrls_ledger:
  assumes "checkUrls cfg w verbose n urls c = Inr c'"
    and "\<forall>i\<in>set (cy_newIssues c). \<exists>t\<in>readings w.
           map_of (cy_alerts c) (alertKeyOf (ni_url i) i) = Some t"
  shows "\<forall>i\<in>set (cy_newIssues c'). \<exists>t\<in>readings w.
           map_of (cy_alerts c') (alertKeyOf (ni_url i) i) = Some t"
  using assms
proof (induction urls arbitrary: n c)
  case Nil
  then show ?case by simp
next
  case (Cons url urls)
  from Cons.prems(1) obtain res where
    res: "checkUrl cfg (cw_hostname w) (cw_visit w n) url = Inr res"
    by (cases "checkUrl cfg (cw_hostname w) (cw_visit w n) url") (simp_all add: Let_def)
  obtain alerts newIssues where k: "checkNewIssues (cw_visit w n) url 0 (res_issues res)
       (cy_alerts c, cy_newIssues c) = (alerts, newIssues)"
    by (cases "checkNewIssues (cw_visit w n) url 0 (res_issues res) (cy_alerts c, cy_newIssues c)")
  have "range (uw_now (cw_visit w n)) \<subseteq> readings w"
    by (auto simp: readings_def)
  from checkNewIssues_ledger[OF Cons.prems(2) this, of url 0 "res_issues res"] k
  have inv: "\<forall>i\<in>set newIssues. \<exists>t\<in>readings w. map_of alerts (alertKeyOf (ni_url i) i) = Some t"
    by simp
  define c1 where "c1 = \<lparr>cy_results = cy_results c @ [res], cy_newIssues = newIssues,
                     cy_alerts = alerts,
                     cy_log = (cy_log c @ (if verbose then [asc ''  Checking '' @ url @ asc ''...''] else []))
                        @ (if verbose then [statusLine res] else [])\<rparr>"
  from Cons.prems(1) res k have "checkUrls cfg w verbose (Suc n) urls c1 = Inr c'"
    by (simp add: Let_def c1_def)
  from Cons.IH[OF this] inv show ?case by (simp add: c1_def)
qed

lemma runChecks_ledger:
  assumes "runChecks cfg w verbose state = Inr run"
  shows "\<forall>i\<in>set (run_newIssues run). \<exists>t\<in>readings w.
           map_of (ms_alerts (run_state run)) (alertKeyOf (ni_url i) i) = Some t"
proof -
  from runChecks_Inr[OF assms] obtain c where
    c: "checkUrls cfg w verbose 0 (mc_urls cfg) (startCycle cfg verbose state) = Inr c"
    and e: "run_newIssues run = cy_newIssues c" "ms_alerts (run_state run) = cy_alerts c"
    by blast
  have "\<forall>i\<in>set (cy_newIssues (startCycle cfg verbose state)). \<exists>t\<in>readings w.
           map_of (cy_alerts (startCycle cfg verbose state)) (alertKeyOf (ni_url i) i) = Some t"
    by (simp add: startCycle_def)
  from checkUrls_ledger[OF c this] e show ?thesis by simp
qed

text \<open>
  Claim C6 as stated fails where it says the failure is logged: \<open>sendAlerts\<close> prints
  the error only when \<open>verbose\<close> is set, and \<open>verbose\<close> is false by default. Here the
  one dispatch of the batch fails and nothing is printed.
\<close>

theorem sendAlerts_counterexample:
  "sendAlerts ex_config ex_linear (\<lambda>n input. DispatchFailed (asc ''Network Error'')) False
     [withUrl ex_issue (asc ''https://example.com'')] = ([], [])"
proof -
  have "truthyStr (mc_teamId ex_config)" "isConfigured ex_linear"
    by (simp_all add: ex_config_def ex_linear_def isConfigured_def asc_nonempty)
  then show ?thesis
    by (simp add: sendAlerts_configured dispatchOutcomes_def)
qed

text \<open>
  Claim C6, amended. With a team and the tracker configured, every issue of the batch is
  sent; a failure is caught at its issue, printed when \<open>verbose\<close> is set, and the
  issues after it are still sent: the issues created are those of the requests that
  succeeded, in order. Dispatch changes nothing in the state: whenever \<open>runChecks\<close>
  completes, \<open>monitor\<close> completes with the state \<open>runChecks\<close> saved, in which the key
  of every issue of the batch holds a time read in this cycle. An issue whose key holds a
  time stamp other than 0 is dropped as long as no more than four hours have passed since.
\<close>

theorem dispatch_failure_isolated:
  "((truthyStr (mc_teamId cfg) \<and> isConfigured linear) \<longrightarrow>
      sendAlerts cfg linear dispatch verbose issues =
        (createdOf (dispatchOutcomes cfg dispatch 0 issues),
         if verbose then dispatchLog (dispatchOutcomes cfg dispatch 0 issues) else [])) \<and>
   (\<forall>run. runChecks cfg w verbose state = Inr run \<longrightarrow>
      (\<exists>m. monitor cfg linear w dispatch verbose state = Inr m \<and> mo_state m = run_state run) \<and>
      (\<forall>i\<in>set (run_newIssues run). \<exists>v j.
          map_of (ms_alerts (run_state run)) (alertKeyOf (ni_url i) i) =
            Some (uw_now (cw_visit w v) j))) \<and>
   ((map_of stored (alertKeyOf url issue) = Some t \<and> t \<noteq> 0 \<and>
     uw_now uw n - t \<le> 4 * 60 * 60 * 1000) \<longrightarrow>
      checkNewIssues uw url n [issue] (stored, batch) = (stored, batch))"
proof (intro conjI allI impI)
  assume "truthyStr (mc_teamId cfg) \<and> isConfigured linear"
  then show "sendAlerts cfg linear dispatch verbose issues =
        (createdOf (dispatchOutcomes cfg dispatch 0 issues),
         if verbose then dispatchLog (dispatchOutcomes cfg dispatch 0 issues) else [])"
    using sendAlerts_configured by blast
next
  fix run
  assume r: "runChecks cfg w verbose state = Inr run"
  from monitor_after_runChecks[OF r]
  show "\<exists>m. monitor cfg linear w dispatch verbose state = Inr m \<and> mo_state m = run_state run"
    by blast
  from runChecks_ledger[OF r]
  show "\<forall>i\<in>set (run_newIssues run). \<exists>v j.
          map_of (ms_alerts (run_state run)) (alertKeyOf (ni_url i) i) =
            Some (uw_now (cw_visit w v) j)"
    unfolding readings_def by (simp add: Bex_def) metis
next
  assume "map_of stored (alertKeyOf url issue) = Some t \<and> t \<noteq> 0 \<and>
     uw_now uw n - t \<le> 4 * 60 * 60 * 1000"
  then show "checkNewIssues uw url n [issue] (stored, batch) = (stored, batch)"
    by (simp add: checkNewIssues_single)
qed

theorem dispatch_failure_isolated_witness:
  "truthyStr (mc_teamId ex_config) \<and> isConfigured ex_linear \<and>
   sendAlerts ex_config ex_linear ex_dispatch True
     [withUrl ex_issue (asc ''https://a.example''), withUrl ex_issue (asc ''https://b.example'')] =
     ([\<lparr>ci_id = asc ''id-1'', ci_identifier = asc ''ZT-1'',
        ci_url = asc ''https://linear.app/zt/issue/ZT-1'', ci_title = i_title ex_issue\<rparr>],
      [asc ''  '' @ [0x274C] @ asc '' Error enviando alerta: '' @ asc ''Network Error'',
       asc ''  '' @ [0xD83D, 0xDCE8] @ asc '' Alerta enviada: '' @ asc ''ZT-1'' @
         asc '' '' @ [0x2192] @ asc '' Gonzalo'']) \<and>
   (\<exists>run m. runChecks ex_config (ex_cycleWorld 1000) True defaultState = Inr run \<and>
      monitor ex_config ex_linear (ex_cycleWorld 1000) ex_dispatch True defaultState = Inr m \<and>
      mo_state m = run_state run) \<and>
   checkNewIssues (ex_urlWorld (Response 503 120) (1000 + 3 * 60 * 60 * 1000))
      (asc ''https://example.com'') 0 [ex_issue]
      ([(alertKeyOf (asc ''https://example.com'') ex_issue, 1000)], []) =
     ([(alertKeyOf (asc ''https://example.com'') ex_issue, 1000)], [])"
proof -
  have a: "truthyStr (mc_teamId ex_config)" "isConfigured ex_linear"
    by (simp_all add: ex_config_def ex_linear_def isConfigured_def asc_nonempty)
  have o: "dispatchOutcomes ex_config ex_dispatch 0
     [withUrl ex_issue (asc ''https://a.example''), withUrl ex_issue (asc ''https://b.example'')] =
     [DispatchFailed (asc ''Network Error''),
      Created \<lparr>ci_id = asc ''id-1'', ci_identifier = asc ''ZT-1'',
        ci_url = asc ''https://linear.app/zt/issue/ZT-1'', ci_title = i_title ex_issue\<rparr>]"
    by (simp add: dispatchOutcomes_def ex_dispatch_def issueCreateInputOf_def withUrl_def)
  from runChecks_total[OF ex_hostname_ok ex_writeOk] obtain run where
    r: "runChecks ex_config (ex_cycleWorld 1000) True defaultState = Inr run"
    by blast
  have m: "map_of [(alertKeyOf (asc ''https://example.com'') ex_issue, 1000)]
      (alertKeyOf (asc ''https://example.com'') ex_issue) = Some (1000::int)"
    by simp
  have n3: "uw_now (ex_urlWorld (Response 503 120) (1000 + 3 * 60 * 60 * 1000)) 0 - 1000
             \<le> 4 * 60 * 60 * 1000"
    by (simp add: ex_urlWorld_def)
  note inst = dispatch_failure_isolated[where cfg = ex_config and linear = ex_linear
      and dispatch = ex_dispatch and verbose = True
      and issues = "[withUrl ex_issue (asc ''https://a.example''),
                     withUrl ex_issue (asc ''https://b.example'')]"
      and w = "ex_cycleWorld 1000" and state = defaultState
      and stored = "[(alertKeyOf (asc ''https://example.com'') ex_issue, 1000)]"
      and url = "asc ''https://example.com''" and issue = ex_issue and t = 1000
      and uw = "ex_urlWorld (Response 503 120) (1000 + 3 * 60 * 60 * 1000)" and n = 0
      and batch = "[]"]
  from inst a have s: "sendAlerts ex_config ex_linear ex_dispatch True
     [withUrl ex_issue (asc ''https://a.example''), withUrl ex_issue (asc ''https://b.example'')] =
     ([\<lparr>ci_id = asc ''id-1'', ci_identifier = asc ''ZT-1'',
        ci_url = asc ''https://linear.app/zt/issue/ZT-1'', ci_title = i_title ex_issue\<rparr>],
      [asc ''  '' @ [0x274C] @ asc '' Error enviando alerta: '' @ asc ''Network Error'',
       asc ''  '' @ [0xD83D, 0xDCE8] @ asc '' Alerta enviada: '' @ asc ''ZT-1'' @
         asc '' '' @ [0x2192] @ asc '' Gonzalo''])"
    unfolding o by simp
  from inst r have mm: "\<exists>m. monitor ex_config ex_linear (ex_cycleWorld 1000) ex_dispatch True
       defaultState = Inr m \<and> mo_state m = run_state run"
    by blast
  from inst m n3 have d: "checkNewIssues (ex_urlWorld (Response 503 120) (1000 + 3 * 60 * 60 * 1000))
      (asc ''https://example.com'') 0 [ex_issue]
      ([(alertKeyOf (asc ''https://example.com'') ex_issue, 1000)], []) =
     ([(alertKeyOf (asc ''https://example.com'') ex_issue, 1000)], [])"
    by simp
  from a s r mm d show ?thesis by blast
qed

section \<open>The monitor: the deduplication rule over a cycle\<close>

lemma examined_append:
  "examined w v (rs @ ss) = examined w v rs @ examined w (v + length rs) ss"
  by (induction rs arbitrary: v) simp_all








end
